theory Spec2Isabelle
  imports Main
begin

section \<open>The deployment endpoint of project.py\<close>

text \<open>
  The repository is one Python module, \<^verbatim>\<open>project.py\<close>, whose function
  \<^verbatim>\<open>handle_request\<close> validates a webhook request, asks a language model for a
  page, writes three files, publishes them with git and the GitHub command line tool and
  posts the result to a callback URL. The embedding below follows that function line by line.
  Every external action (directory creation, file write, subprocess, HTTP POST, sleep) is an
  \<open>event\<close> appended to a trace, and the outcome of each external action is read from an
  environment record, so that the handler is a pure function of the environment and the request.

  Conventions: Python strings are modelled as \<open>string\<close> and the Unicode-aware library
  functions \<^verbatim>\<open>str.lower\<close>, \<^verbatim>\<open>str.strip\<close> and \<^verbatim>\<open>int\<close> are modelled on ASCII text;
  paths are joined as \<^verbatim>\<open>posixpath.join\<close> does. A parsed body holds no integer of more than
  4300 digits (the parser refuses the text), so the decimal text of the round always exists.
\<close>

subsection \<open>Python values and library functions\<close>

text \<open>A finite float is \<open>m * 2 ^ e\<close>; JSON text read by Python may also hold infinities and NaN.\<close>

datatype pyfloat = Finite int int | Infinity bool | NaN

datatype json =
    JNull
  | JBool bool
  | JInt int
  | JFloat pyfloat
  | JString string
  | JArray "json list"
  | JObject "(string \<times> json) list"

text \<open>The external actions of the handler, in the order of their first use in the source.
  \<open>Run\<close> is \<^verbatim>\<open>subprocess.run(argv, cwd=..., check=True)\<close>, \<open>CheckOutput\<close> is
  \<^verbatim>\<open>subprocess.check_output(argv, cwd=...)\<close>, \<open>Post url payload timeout\<close> is the call of
  \<^verbatim>\<open>requests.post\<close> (its header is the constant JSON content type), and the two prints are
  the log lines of lines 92 and 161.\<close>

datatype event =
    MakeDirs string
  | PrintGenerating string
  | Generate json
  | WriteFile string string
  | Run "string list" "string option"
  | CheckOutput "string list" "string option"
  | ImportRequests
  | Post json json nat
  | Sleep nat
  | PrintCallbackFailed

text \<open>The exceptions that can leave the handler. \<open>StepFailed\<close> is raised by a failing
  external action (\<^verbatim>\<open>OSError\<close> of a file operation, \<^verbatim>\<open>CalledProcessError\<close> of a subprocess
  run with \<^verbatim>\<open>check=True\<close>, \<^verbatim>\<open>UnicodeEncodeError\<close> or \<^verbatim>\<open>OSError\<close> of a \<^verbatim>\<open>print\<close> whose text
  standard output does not take); it carries the action.\<close>

datatype exn = AttributeError | TypeError | ValueError | OverflowError | StepFailed event

text \<open>\<^verbatim>\<open>dict.get(key)\<close> and \<^verbatim>\<open>dict.get(key, default)\<close> on the parsed request body.\<close>

definition dict_get :: "(string \<times> json) list \<Rightarrow> string \<Rightarrow> json" where
  "dict_get d k = (case map_of d k of None \<Rightarrow> JNull | Some v \<Rightarrow> v)"

definition dict_get_default :: "(string \<times> json) list \<Rightarrow> string \<Rightarrow> json \<Rightarrow> json" where
  "dict_get_default d k dflt = (case map_of d k of None \<Rightarrow> dflt | Some v \<Rightarrow> v)"

text \<open>\<^verbatim>\<open>s.replace(c, r)\<close> for a one-character pattern \<open>c\<close>.\<close>

definition replace_char :: "char \<Rightarrow> string \<Rightarrow> string \<Rightarrow> string" where
  "replace_char c r s = concat (map (\<lambda>x. if x = c then r else [x]) s)"

text \<open>\<^verbatim>\<open>html.escape(s)\<close> with its default \<^verbatim>\<open>quote=True\<close>: five replacements in this order.
  Applied to anything but a string it raises \<^verbatim>\<open>AttributeError\<close> (no method \<^verbatim>\<open>replace\<close>).\<close>

definition escape_str :: "string \<Rightarrow> string" where
  "escape_str s =
     replace_char (CHR 0x27) ''&#x27;''
       (replace_char (CHR 0x22) ''&quot;''
         (replace_char (CHR ''>'') ''&gt;''
           (replace_char (CHR ''<'') ''&lt;''
             (replace_char (CHR ''&'') ''&amp;'' s))))"

fun html_escape :: "json \<Rightarrow> exn + string" where
  "html_escape (JString s) = Inr (escape_str s)"
| "html_escape _ = Inl AttributeError"

text \<open>\<^verbatim>\<open>str.lower\<close> on ASCII letters.\<close>

definition lower_char :: "char \<Rightarrow> char" where
  "lower_char c =
     (case map_of (zip ''ABCDEFGHIJKLMNOPQRSTUVWXYZ'' ''abcdefghijklmnopqrstuvwxyz'') c of
        None \<Rightarrow> c
      | Some l \<Rightarrow> l)"

definition lower :: "string \<Rightarrow> string" where
  "lower s = map lower_char s"

text \<open>\<^verbatim>\<open>str.strip\<close>: the ASCII white space of Python strings is tab to carriage return,
  the four separators 0x1c to 0x1f and the space.\<close>

definition is_space :: "char \<Rightarrow> bool" where
  "is_space c = (let n = (of_char c :: nat) in (9 \<le> n \<and> n \<le> 13) \<or> (28 \<le> n \<and> n \<le> 32))"

definition strip :: "string \<Rightarrow> string" where
  "strip s = rev (dropWhile is_space (rev (dropWhile is_space s)))"

text \<open>The decimal text of an integer, as an f-string writes it.\<close>

definition digit_char :: "nat \<Rightarrow> char" where
  "digit_char n = ''0123456789'' ! n"

fun show_nat :: "nat \<Rightarrow> string" where
  "show_nat n = (if n < 10 then [digit_char n] else show_nat (n div 10) @ [digit_char (n mod 10)])"

declare show_nat.simps [simp del]

definition show_int :: "int \<Rightarrow> string" where
  "show_int i = (if i < 0 then CHR ''-'' # show_nat (nat (- i)) else show_nat (nat i))"

text \<open>\<^verbatim>\<open>int(s)\<close> for a string of ASCII text: surrounding white space is dropped, a sign
  may come first, then decimal digits, single underscores allowed between two digits. The
  white space of \<^verbatim>\<open>int\<close> is that of C, tab to carriage return and the space; the separators
  0x1c to 0x1f, which \<^verbatim>\<open>str.strip\<close> removes, are not part of it. A text of more than 4300
  digits is refused (the limit of the interpreter on the conversion of integer strings).\<close>

definition is_int_space :: "char \<Rightarrow> bool" where
  "is_int_space c = (let n = (of_char c :: nat) in (9 \<le> n \<and> n \<le> 13) \<or> n = 32)"

definition strip_int_space :: "string \<Rightarrow> string" where
  "strip_int_space s = rev (dropWhile is_int_space (rev (dropWhile is_int_space s)))"

definition max_str_digits :: nat where
  "max_str_digits = 4300"

definition is_digit :: "char \<Rightarrow> bool" where
  "is_digit c = (let n = (of_char c :: nat) in 48 \<le> n \<and> n \<le> 57)"

definition digit_val :: "char \<Rightarrow> nat" where
  "digit_val c = of_char c - 48"

fun digits_value :: "nat \<Rightarrow> string \<Rightarrow> nat option" where
  "digits_value acc [] = Some acc"
| "digits_value acc [c] = (if is_digit c then Some (10 * acc + digit_val c) else None)"
| "digits_value acc (c # d # ds) =
     (if is_digit c then digits_value (10 * acc + digit_val c) (d # ds)
      else if c = CHR ''_'' \<and> is_digit d then digits_value (10 * acc + digit_val d) ds
      else None)"

definition unsigned_of_str :: "string \<Rightarrow> nat option" where
  "unsigned_of_str s =
     (case s of
        [] \<Rightarrow> None
      | c # cs \<Rightarrow>
          if is_digit c \<and> length (filter is_digit s) \<le> max_str_digits
          then digits_value 0 s else None)"

definition int_of_str :: "string \<Rightarrow> int option" where
  "int_of_str s =
     (case strip_int_space s of
        [] \<Rightarrow> None
      | c # cs \<Rightarrow>
          if c = CHR ''-'' then map_option (\<lambda>n. - int n) (unsigned_of_str cs)
          else if c = CHR ''+'' then map_option int (unsigned_of_str cs)
          else map_option int (unsigned_of_str (c # cs)))"

text \<open>\<^verbatim>\<open>int(x)\<close> on a value read from JSON. A float is truncated towards zero.\<close>

definition trunc_float :: "int \<Rightarrow> int \<Rightarrow> int" where
  "trunc_float m e =
     (if 0 \<le> e then m * 2 ^ nat e else sgn m * (\<bar>m\<bar> div 2 ^ nat (- e)))"

fun py_int :: "json \<Rightarrow> exn + int" where
  "py_int (JInt n) = Inr n"
| "py_int (JBool b) = Inr (if b then 1 else 0)"
| "py_int (JFloat (Finite m e)) = Inr (trunc_float m e)"
| "py_int (JFloat (Infinity s)) = Inl OverflowError"
| "py_int (JFloat NaN) = Inl ValueError"
| "py_int (JString s) = (case int_of_str s of None \<Rightarrow> Inl ValueError | Some n \<Rightarrow> Inr n)"
| "py_int JNull = Inl TypeError"
| "py_int (JArray xs) = Inl TypeError"
| "py_int (JObject kv) = Inl TypeError"

text \<open>The truth value Python gives a value in \<^verbatim>\<open>if evaluation_url:\<close>.\<close>

fun truthy :: "json \<Rightarrow> bool" where
  "truthy JNull = False"
| "truthy (JBool b) = b"
| "truthy (JInt n) = (n \<noteq> 0)"
| "truthy (JFloat (Finite m e)) = (m \<noteq> 0)"
| "truthy (JFloat (Infinity s)) = True"
| "truthy (JFloat NaN) = True"
| "truthy (JString s) = (s \<noteq> [])"
| "truthy (JArray xs) = (xs \<noteq> [])"
| "truthy (JObject kv) = (kv \<noteq> [])"

text \<open>\<^verbatim>\<open>os.path.join(a, b)\<close>: an absolute second component replaces the first.\<close>

definition path_join :: "string \<Rightarrow> string \<Rightarrow> string" where
  "path_join a b =
     (case b of
        c # cs \<Rightarrow>
          if c = CHR ''/'' then b
          else if a = [] \<or> last a = CHR ''/'' then a @ b
          else a @ ''/'' @ b
      | [] \<Rightarrow> if a = [] \<or> last a = CHR ''/'' then a else a @ ''/'')"

subsection \<open>The environment\<close>

text \<open>What the process reads at start-up (lines 14 to 18) and what the outside world answers
  during one request: the random identifier, the text \<^verbatim>\<open>str\<close> gives a value that is not a
  string, which external actions fail (the two log lines included), what the language model
  returns, what a subprocess prints, and what each callback attempt (numbered from 0) does,
  whatever the payload it is given. The process refuses to start
  when the credential, the token, the account or the API key is missing (lines 21 to 28);
  nothing below depends on that, so the environment is left unconstrained.\<close>

datatype llm_result = LlmRaises string | LlmContent "string option"

datatype post_result = Raises | Status int

record env =
  STORED_SECRET :: string
  GITHUB_USERNAME :: string
  WORK_DIR :: string
  uuid4_hex :: string
  py_str :: "json \<Rightarrow> string"
  fails :: "event \<Rightarrow> bool"
  chat_completion :: "string \<Rightarrow> llm_result"
  stdout_of :: "event \<Rightarrow> string"
  import_requests_fails :: bool
  post :: "nat \<Rightarrow> post_result"

text \<open>A value inside an f-string.\<close>

definition fmt :: "env \<Rightarrow> json \<Rightarrow> string" where
  "fmt env v = (case v of JString s \<Rightarrow> s | _ \<Rightarrow> py_str env v)"

subsection \<open>The content generator (lines 33 to 61)\<close>

definition prompt :: "string \<Rightarrow> string" where
  "prompt brief_text =
     ''\<newline>    You are an expert web developer.'' @
     ''\<newline>    Generate a minimal but functional HTML/JS/CSS application'' @
     ''\<newline>    that fulfills this brief:'' @
     ''\<newline>\<newline>    '' @ brief_text @
     ''\<newline>\<newline>    Requirements:'' @
     ''\<newline>    - Must be self-contained in a single HTML file'' @
     ''\<newline>    - Include minimal inline JS and CSS'' @
     ''\<newline>    - Use clean and professional structure'' @
     ''\<newline>    - Display meaningful content or interactivity per the brief'' @
     ''\<newline>    ''"

text \<open>The result is the stripped content, or the text of the exception raised: by the client,
  or by \<^verbatim>\<open>.strip()\<close> when the content is \<^verbatim>\<open>None\<close>.\<close>

definition none_has_no_strip :: string where
  "none_has_no_strip =
     CHR 0x27 # ''NoneType'' @ CHR 0x27 # '' object has no attribute '' @
     CHR 0x27 # ''strip'' @ [CHR 0x27]"

definition generate_app_from_brief :: "env \<Rightarrow> json \<Rightarrow> string + string" where
  "generate_app_from_brief env brief_value =
     (case chat_completion env (prompt (fmt env brief_value)) of
        LlmRaises msg \<Rightarrow> Inl msg
      | LlmContent None \<Rightarrow> Inl none_has_no_strip
      | LlmContent (Some content) \<Rightarrow> Inr (strip content))"

subsection \<open>The request handler (lines 66 to 163)\<close>

text \<open>The handler returns a response or lets an exception escape.\<close>

datatype outcome = Response int json | Fault exn

text \<open>\<^verbatim>\<open>JSONResponse(content, status_code=...)\<close> serialises its content when it is built, with
  \<^verbatim>\<open>allow_nan=False\<close>: a content that holds a NaN or an infinite float anywhere raises
  \<^verbatim>\<open>ValueError\<close>. Such floats do occur in a parsed body: the parser accepts \<^verbatim>\<open>NaN\<close> and
  \<^verbatim>\<open>Infinity\<close> and reads \<^verbatim>\<open>1e999\<close> as an infinity.\<close>

fun compliant :: "json \<Rightarrow> bool"
  and compliant_list :: "json list \<Rightarrow> bool"
  and compliant_fields :: "(string \<times> json) list \<Rightarrow> bool" where
  "compliant JNull = True"
| "compliant (JBool b) = True"
| "compliant (JInt n) = True"
| "compliant (JFloat (Finite m e)) = True"
| "compliant (JFloat (Infinity s)) = False"
| "compliant (JFloat NaN) = False"
| "compliant (JString s) = True"
| "compliant (JArray xs) = compliant_list xs"
| "compliant (JObject kv) = compliant_fields kv"
| "compliant_list [] = True"
| "compliant_list (x # xs) = (compliant x \<and> compliant_list xs)"
| "compliant_fields [] = True"
| "compliant_fields ((k, v) # kv) = (compliant v \<and> compliant_fields kv)"

definition JSONResponse :: "json \<Rightarrow> int \<Rightarrow> outcome" where
  "JSONResponse content status_code =
     (if compliant content then Response status_code content else Fault ValueError)"

text \<open>A block of external actions, each of which raises when it fails: the first failure
  ends the block, and the failing action is the last one in the trace.\<close>

fun run_steps :: "env \<Rightarrow> event list \<Rightarrow> event list \<times> exn option" where
  "run_steps env [] = ([], None)"
| "run_steps env (s # ss) =
     (if fails env s then ([s], Some (StepFailed s))
      else (case run_steps env ss of (tr, r) \<Rightarrow> (s # tr, r)))"

text \<open>Lines 78 to 84: the fields of the request, with their defaults.\<close>

record fields =
  email :: string
  task :: string
  round_no :: int
  nonce :: json
  brief :: json
  evaluation_url :: json
  attachments :: json

definition extract_fields :: "env \<Rightarrow> (string \<times> json) list \<Rightarrow> exn + fields" where
  "extract_fields env data =
     (case html_escape (dict_get_default data ''email'' (JString ''student@example.com'')) of
        Inl e \<Rightarrow> Inl e
      | Inr email_v \<Rightarrow>
     (case html_escape (dict_get_default data ''task''
                          (JString (''task-'' @ take 6 (uuid4_hex env)))) of
        Inl e \<Rightarrow> Inl e
      | Inr task_v \<Rightarrow>
     (case py_int (dict_get_default data ''round'' (JInt 1)) of
        Inl e \<Rightarrow> Inl e
      | Inr round_v \<Rightarrow>
          Inr \<lparr> email = email_v, task = task_v, round_no = round_v,
                nonce = dict_get data ''nonce'',
                brief = dict_get_default data ''brief'' (JString ''''),
                evaluation_url = dict_get_default data ''evaluation_url'' (JString ''''),
                attachments = dict_get_default data ''attachments'' (JArray []) \<rparr>)))"

text \<open>Lines 87 and 88.\<close>

definition repo_name :: "fields \<Rightarrow> string" where
  "repo_name f = lower (replace_char (CHR '' '') ''-'' (task f @ ''-'' @ show_int (round_no f)))"

definition repo_path :: "env \<Rightarrow> fields \<Rightarrow> string" where
  "repo_path env f = path_join (WORK_DIR env) (repo_name f)"

text \<open>Lines 99 to 106: the three files.\<close>

definition readme_text :: "env \<Rightarrow> fields \<Rightarrow> string" where
  "readme_text env f =
     ''# '' @ task f @ ''\<newline>\<newline>'' @ fmt env (brief f) @
     ''\<newline>\<newline>Auto-generated for '' @ email f @
     '' (Round '' @ show_int (round_no f) @ '').''"

definition license_text :: string where
  "license_text =
     ''MIT License\<newline>\<newline>Copyright (c) 2025\<newline>\<newline>Permission is hereby granted...''"

definition write_files :: "env \<Rightarrow> fields \<Rightarrow> string \<Rightarrow> event list" where
  "write_files env f generated_code =
     [WriteFile (path_join (repo_path env f) ''index.html'') generated_code,
      WriteFile (path_join (repo_path env f) ''README.md'') (readme_text env f),
      WriteFile (path_join (repo_path env f) ''LICENSE'') license_text]"

text \<open>Lines 109 to 133: git, then the hosting tool, then the commit hash.\<close>

definition git_setup :: "env \<Rightarrow> fields \<Rightarrow> event list" where
  "git_setup env f =
     [Run [''git'', ''init''] (Some (repo_path env f)),
      Run [''git'', ''branch'', ''-M'', ''main''] (Some (repo_path env f)),
      Run [''git'', ''config'', ''user.name'', ''AutoBot''] (Some (repo_path env f)),
      Run [''git'', ''config'', ''user.email'', email f] (Some (repo_path env f)),
      Run [''git'', ''add'', ''.''] (Some (repo_path env f)),
      Run [''git'', ''commit'', ''-m'', ''Initial commit for '' @ task f]
          (Some (repo_path env f))]"

definition gh_repo_create :: "env \<Rightarrow> fields \<Rightarrow> event" where
  "gh_repo_create env f =
     Run [''gh'', ''repo'', ''create'', repo_name f,
          ''--public'', ''--source'', repo_path env f, ''--push'', ''--confirm''] None"

definition gh_enable_pages :: "env \<Rightarrow> fields \<Rightarrow> event" where
  "gh_enable_pages env f =
     Run [''gh'', ''api'', ''repos/'' @ GITHUB_USERNAME env @ ''/'' @ repo_name f @ ''/pages'',
          ''-f'', ''source.branch=main'', ''-f'', ''source.path=/''] None"

definition git_rev_parse :: "env \<Rightarrow> fields \<Rightarrow> event" where
  "git_rev_parse env f = CheckOutput [''git'', ''rev-parse'', ''HEAD''] (Some (repo_path env f))"

definition publish_steps :: "env \<Rightarrow> fields \<Rightarrow> event list" where
  "publish_steps env f =
     git_setup env f @ [gh_repo_create env f, gh_enable_pages env f, git_rev_parse env f]"

definition repo_url :: "env \<Rightarrow> fields \<Rightarrow> string" where
  "repo_url env f = ''https://github.com/'' @ GITHUB_USERNAME env @ ''/'' @ repo_name f"

definition pages_url :: "env \<Rightarrow> fields \<Rightarrow> string" where
  "pages_url env f = ''https://'' @ GITHUB_USERNAME env @ ''.github.io/'' @ repo_name f @ ''/''"

definition commit_sha :: "env \<Rightarrow> fields \<Rightarrow> string" where
  "commit_sha env f = strip (stdout_of env (git_rev_parse env f))"

text \<open>Lines 136 to 144.\<close>

definition response_payload :: "env \<Rightarrow> fields \<Rightarrow> json" where
  "response_payload env f =
     JObject [(''email'', JString (email f)),
              (''task'', JString (task f)),
              (''round'', JInt (round_no f)),
              (''nonce'', nonce f),
              (''repo_url'', JString (repo_url env f)),
              (''commit_sha'', JString (commit_sha env f)),
              (''pages_url'', JString (pages_url env f))]"

text \<open>Lines 150 to 159: the loop over the delays. The result says whether a POST raised,
  which leaves the loop at once.\<close>

fun post_loop :: "env \<Rightarrow> json \<Rightarrow> json \<Rightarrow> nat \<Rightarrow> nat list \<Rightarrow> event list \<times> bool" where
  "post_loop env url payload i [] = ([], False)"
| "post_loop env url payload i (delay # delays) =
     (case post env i of
        Raises \<Rightarrow> ([Post url payload 10], True)
      | Status code \<Rightarrow>
          if code = 200 then ([Post url payload 10], False)
          else (case post_loop env url payload (Suc i) delays of
                  (tr, raised) \<Rightarrow> (Post url payload 10 # Sleep delay # tr, raised)))"

text \<open>Lines 147 to 161: the notification. Every exception of the import and of the loop is
  caught on line 160; the handler of the exception then writes the log line of line 161,
  which is outside any \<^verbatim>\<open>try\<close>, so what that \<^verbatim>\<open>print\<close> raises leaves the notification.\<close>

definition notify :: "env \<Rightarrow> json \<Rightarrow> json \<Rightarrow> event list \<times> exn option" where
  "notify env url payload =
     (if truthy url then
        (if import_requests_fails env then
           (case run_steps env [PrintCallbackFailed] of
              (tr, r) \<Rightarrow> (ImportRequests # tr, r))
         else
           (case post_loop env url payload 0 [1, 2, 4, 8, 16] of
              (tr, True) \<Rightarrow>
                (case run_steps env [PrintCallbackFailed] of
                   (tr', r) \<Rightarrow> (ImportRequests # tr @ tr', r))
            | (tr, False) \<Rightarrow> (ImportRequests # tr, None)))
      else ([], None))"

text \<open>Lines 87 to 163, for the fields of an authenticated request: the directory and the log
  line, the generator, the files and the publisher, the notification, the response. Only the
  generator call and the body of the notification stand inside a \<^verbatim>\<open>try\<close>; what any other
  action raises, the two log lines and the construction of the response included, leaves the
  handler.\<close>

definition deploy :: "env \<Rightarrow> fields \<Rightarrow> outcome \<times> event list" where
  "deploy env f =
     (case run_steps env [MakeDirs (repo_path env f), PrintGenerating (task f)] of
        (tr1, Some e) \<Rightarrow> (Fault e, tr1)
      | (tr1, None) \<Rightarrow>
     (case generate_app_from_brief env (brief f) of
        Inl msg \<Rightarrow>
          (JSONResponse (JObject [(''error'', JString (''LLM generation failed: '' @ msg))]) 500,
           tr1 @ [Generate (brief f)])
      | Inr generated_code \<Rightarrow>
     (case run_steps env (write_files env f generated_code @ publish_steps env f) of
        (tr2, Some e) \<Rightarrow> (Fault e, tr1 @ [Generate (brief f)] @ tr2)
      | (tr2, None) \<Rightarrow>
     (case notify env (evaluation_url f) (response_payload env f) of
        (tr3, Some e) \<Rightarrow> (Fault e, tr1 @ [Generate (brief f)] @ tr2 @ tr3)
      | (tr3, None) \<Rightarrow>
          (JSONResponse (response_payload env f) 200,
           tr1 @ [Generate (brief f)] @ tr2 @ tr3)))))"

text \<open>The handler. The body is \<open>None\<close> when \<^verbatim>\<open>request.json()\<close> raises. A parsed body that is
  not an object has no method \<^verbatim>\<open>get\<close>.\<close>

definition handle_request :: "env \<Rightarrow> json option \<Rightarrow> outcome \<times> event list" where
  "handle_request env body =
     (case body of
        None \<Rightarrow> (JSONResponse (JObject [(''error'', JString ''Invalid JSON'')]) 400, [])
      | Some (JObject data) \<Rightarrow>
          if dict_get data ''secret'' \<noteq> JString (STORED_SECRET env)
          then (JSONResponse (JObject [(''error'', JString ''Invalid secret'')]) 403, [])
          else (case extract_fields env data of
                  Inl e \<Rightarrow> (Fault e, [])
                | Inr f \<Rightarrow> deploy env f)
      | Some _ \<Rightarrow> (Fault AttributeError, []))"

subsection \<open>Vocabulary of the specification\<close>

text \<open>The project identity as the specification writes it,
  \<^verbatim>\<open>lower(replace(task + "-" + round, " ", "-"))\<close>, for a task text and a round number.\<close>

definition spec_identity :: "string \<Rightarrow> int \<Rightarrow> string" where
  "spec_identity task_text round_value =
     lower (replace_char (CHR '' '') ''-'' (task_text @ ''-'' @ show_int round_value))"

text \<open>The characters \<^verbatim>\<open>&\<close>, \<^verbatim>\<open><\<close> and \<^verbatim>\<open>>\<close>; all the characters that escaping rewrites.\<close>

definition has_markup_char :: "string \<Rightarrow> bool" where
  "has_markup_char s = (CHR ''&'' \<in> set s \<or> CHR ''<'' \<in> set s \<or> CHR ''>'' \<in> set s)"

definition has_escaped_char :: "string \<Rightarrow> bool" where
  "has_escaped_char s = (has_markup_char s \<or> CHR 0x22 \<in> set s \<or> CHR 0x27 \<in> set s)"

text \<open>A request field that is a string when it is present, as the data model has it.\<close>

definition string_or_absent :: "(string \<times> json) list \<Rightarrow> string \<Rightarrow> bool" where
  "string_or_absent data k =
     (case map_of data k of None \<Rightarrow> True | Some (JString s) \<Rightarrow> True | Some _ \<Rightarrow> False)"

text \<open>The events of the notification step, and those that touch the file system or run
  a tool.\<close>

fun is_notification_event :: "event \<Rightarrow> bool" where
  "is_notification_event ImportRequests = True"
| "is_notification_event (Post url payload t) = True"
| "is_notification_event (Sleep n) = True"
| "is_notification_event PrintCallbackFailed = True"
| "is_notification_event _ = False"

fun is_post :: "event \<Rightarrow> bool" where
  "is_post (Post url payload t) = True"
| "is_post _ = False"

text \<open>The request has passed the check of line 74.\<close>

definition authenticated :: "env \<Rightarrow> (string \<times> json) list \<Rightarrow> bool" where
  "authenticated env data = (dict_get data ''secret'' = JString (STORED_SECRET env))"

text \<open>The events of the handler before the files are written: lines 89, 92 and 94.\<close>

definition prepare_events :: "env \<Rightarrow> fields \<Rightarrow> event list" where
  "prepare_events env f =
     [MakeDirs (repo_path env f), PrintGenerating (task f), Generate (brief f)]"

subsection \<open>Concrete environments and requests\<close>

text \<open>The end-to-end example of the specification: credential \<open>S\<close>, account \<open>u\<close>, a generator
  that returns \<^verbatim>\<open><html>..</html>\<close>, a commit \<open>abc123\<close>, every external action succeeding.\<close>

definition env_ok :: env where
  "env_ok = \<lparr> STORED_SECRET = ''S'', GITHUB_USERNAME = ''u'', WORK_DIR = ''./workspace'',
     uuid4_hex = ''0123456789abcdef0123456789abcdef'', py_str = (\<lambda>v. ''''),
     fails = (\<lambda>s. False),
     chat_completion = (\<lambda>p. LlmContent (Some ''<html>..</html>'')),
     stdout_of = (\<lambda>s. ''abc123\<newline>''), import_requests_fails = False,
     post = (\<lambda>i. Status 200) \<rparr>"

definition env_llm_down :: env where
  "env_llm_down = env_ok \<lparr> chat_completion := (\<lambda>p. LlmRaises ''boom'') \<rparr>"

text \<open>The remote repository exists already: \<^verbatim>\<open>gh repo create\<close> fails.\<close>

definition env_repo_exists :: env where
  "env_repo_exists =
     env_ok \<lparr> fails := (\<lambda>s. case s of Run argv cwd \<Rightarrow> take 3 argv = [''gh'', ''repo'', ''create'']
                               | _ \<Rightarrow> False) \<rparr>"

definition env_callback_500 :: env where
  "env_callback_500 = env_ok \<lparr> post := (\<lambda>i. Status 500) \<rparr>"

definition env_callback_down :: env where
  "env_callback_down = env_ok \<lparr> post := (\<lambda>i. Raises) \<rparr>"

text \<open>Every POST raises and the log line of line 161 cannot be written.\<close>

definition env_log_fails :: env where
  "env_log_fails = env_callback_down \<lparr> fails := (\<lambda>s. s = PrintCallbackFailed) \<rparr>"

definition quiz_data :: "(string \<times> json) list" where
  "quiz_data = [(''secret'', JString ''S''), (''task'', JString ''Quiz App''),
                (''round'', JInt 1), (''brief'', JString ''a quiz app'')]"

definition quiz_fields :: fields where
  "quiz_fields = \<lparr> email = ''student@example.com'', task = ''Quiz App'', round_no = 1,
     nonce = JNull, brief = JString ''a quiz app'', evaluation_url = JString '''',
     attachments = JArray [] \<rparr>"

definition quiz_payload :: json where
  "quiz_payload =
     JObject [(''email'', JString ''student@example.com''),
              (''task'', JString ''Quiz App''),
              (''round'', JInt 1),
              (''nonce'', JNull),
              (''repo_url'', JString ''https://github.com/u/quiz-app-1''),
              (''commit_sha'', JString ''abc123''),
              (''pages_url'', JString ''https://u.github.io/quiz-app-1/'')]"

text \<open>The same request with a callback URL.\<close>

definition quiz_cb_data :: "(string \<times> json) list" where
  "quiz_cb_data = (''evaluation_url'', JString ''http://cb'') # quiz_data"

text \<open>A request whose email and task hold characters that escaping rewrites.\<close>

definition markup_data :: "(string \<times> json) list" where
  "markup_data = [(''secret'', JString ''S''), (''email'', JString ''a<b@x.org''),
                  (''task'', JString ''R&D Quiz''), (''round'', JInt 2)]"

definition markup_fields :: fields where
  "markup_fields = \<lparr> email = ''a&lt;b@x.org'', task = ''R&amp;D Quiz'', round_no = 2,
     nonce = JNull, brief = JString '''', evaluation_url = JString '''',
     attachments = JArray [] \<rparr>"

text \<open>The actions of that request up to the commit hash, in order.\<close>

definition markup_events :: "event list" where
  "markup_events =
     [MakeDirs ''./workspace/r&amp;d-quiz-2'',
      PrintGenerating ''R&amp;D Quiz'',
      Generate (JString ''''),
      WriteFile ''./workspace/r&amp;d-quiz-2/index.html'' ''<html>..</html>'',
      WriteFile ''./workspace/r&amp;d-quiz-2/README.md''
        ''# R&amp;D Quiz\<newline>\<newline>\<newline>\<newline>Auto-generated for a&lt;b@x.org (Round 2).'',
      WriteFile ''./workspace/r&amp;d-quiz-2/LICENSE''
        ''MIT License\<newline>\<newline>Copyright (c) 2025\<newline>\<newline>Permission is hereby granted...'',
      Run [''git'', ''init''] (Some ''./workspace/r&amp;d-quiz-2''),
      Run [''git'', ''branch'', ''-M'', ''main''] (Some ''./workspace/r&amp;d-quiz-2''),
      Run [''git'', ''config'', ''user.name'', ''AutoBot''] (Some ''./workspace/r&amp;d-quiz-2''),
      Run [''git'', ''config'', ''user.email'', ''a&lt;b@x.org'']
          (Some ''./workspace/r&amp;d-quiz-2''),
      Run [''git'', ''add'', ''.''] (Some ''./workspace/r&amp;d-quiz-2''),
      Run [''git'', ''commit'', ''-m'', ''Initial commit for R&amp;D Quiz'']
          (Some ''./workspace/r&amp;d-quiz-2''),
      Run [''gh'', ''repo'', ''create'', ''r&amp;d-quiz-2'', ''--public'', ''--source'',
           ''./workspace/r&amp;d-quiz-2'', ''--push'', ''--confirm''] None,
      Run [''gh'', ''api'', ''repos/u/r&amp;d-quiz-2/pages'', ''-f'', ''source.branch=main'',
           ''-f'', ''source.path=/''] None,
      CheckOutput [''git'', ''rev-parse'', ''HEAD''] (Some ''./workspace/r&amp;d-quiz-2'')]"

definition markup_payload :: json where
  "markup_payload =
     JObject [(''email'', JString ''a&lt;b@x.org''),
              (''task'', JString ''R&amp;D Quiz''),
              (''round'', JInt 2),
              (''nonce'', JNull),
              (''repo_url'', JString ''https://github.com/u/r&amp;d-quiz-2''),
              (''commit_sha'', JString ''abc123''),
              (''pages_url'', JString ''https://u.github.io/r&amp;d-quiz-2/'')]"

text \<open>A request whose round is not a number.\<close>

definition bad_round_data :: "(string \<times> json) list" where
  "bad_round_data = [(''secret'', JString ''S''), (''task'', JString ''Quiz App''),
                     (''round'', JString ''two'')]"

text \<open>A request whose round is not a number and whose email that is not a string.\<close>

definition bad_email_data :: "(string \<times> json) list" where
  "bad_email_data = [(''secret'', JString ''S''), (''email'', JInt 5),
                     (''round'', JString ''two'')]"

text \<open>The actions of the end-to-end example up to the commit hash, in order.\<close>

definition quiz_events :: "event list" where
  "quiz_events =
     [MakeDirs ''./workspace/quiz-app-1'',
      PrintGenerating ''Quiz App'',
      Generate (JString ''a quiz app''),
      WriteFile ''./workspace/quiz-app-1/index.html'' ''<html>..</html>'',
      WriteFile ''./workspace/quiz-app-1/README.md''
        ''# Quiz App\<newline>\<newline>a quiz app\<newline>\<newline>Auto-generated for student@example.com (Round 1).'',
      WriteFile ''./workspace/quiz-app-1/LICENSE''
        ''MIT License\<newline>\<newline>Copyright (c) 2025\<newline>\<newline>Permission is hereby granted...'',
      Run [''git'', ''init''] (Some ''./workspace/quiz-app-1''),
      Run [''git'', ''branch'', ''-M'', ''main''] (Some ''./workspace/quiz-app-1''),
      Run [''git'', ''config'', ''user.name'', ''AutoBot''] (Some ''./workspace/quiz-app-1''),
      Run [''git'', ''config'', ''user.email'', ''student@example.com'']
          (Some ''./workspace/quiz-app-1''),
      Run [''git'', ''add'', ''.''] (Some ''./workspace/quiz-app-1''),
      Run [''git'', ''commit'', ''-m'', ''Initial commit for Quiz App'']
          (Some ''./workspace/quiz-app-1''),
      Run [''gh'', ''repo'', ''create'', ''quiz-app-1'', ''--public'', ''--source'',
           ''./workspace/quiz-app-1'', ''--push'', ''--confirm''] None,
      Run [''gh'', ''api'', ''repos/u/quiz-app-1/pages'', ''-f'', ''source.branch=main'',
           ''-f'', ''source.path=/''] None,
      CheckOutput [''git'', ''rev-parse'', ''HEAD''] (Some ''./workspace/quiz-app-1'')]"

text \<open>The end-to-end request with a nonce that cannot be serialised.\<close>

definition nan_nonce_data :: "(string \<times> json) list" where
  "nan_nonce_data = (''nonce'', JArray [JInt 1, JFloat NaN]) # quiz_data"

section \<open>Proofs\<close>

subsection \<open>Blocks of external actions\<close>

lemma run_steps_all_ok:
  "\<forall>s \<in> set ss. \<not> fails env s \<Longrightarrow> run_steps env ss = (ss, None)"
  by (induction ss) auto

lemma run_steps_first_failure:
  "k < length ss \<Longrightarrow> \<forall>i<k. \<not> fails env (ss ! i) \<Longrightarrow> fails env (ss ! k) \<Longrightarrow>
   run_steps env ss = (take (Suc k) ss, Some (StepFailed (ss ! k)))"
proof (induction ss arbitrary: k)
  case Nil
  then show ?case by simp
next
  case (Cons s ss)
  show ?case
  proof (cases k)
    case 0
    with Cons.prems show ?thesis by simp
  next
    case (Suc j)
    from Cons.prems Suc have ok: "\<not> fails env s" by auto
    from Cons.prems Suc have "j < length ss" "\<forall>i<j. \<not> fails env (ss ! i)" "fails env (ss ! j)"
      by auto
    from Cons.IH[OF this] ok Suc show ?thesis by simp
  qed
qed

lemma run_steps_append_ok:
  "\<forall>s \<in> set ss. \<not> fails env s \<Longrightarrow>
   run_steps env (ss @ ts) = (ss @ fst (run_steps env ts), snd (run_steps env ts))"
  by (induction ss) (auto split: prod.splits)

lemma run_steps_subset: "set (fst (run_steps env ss)) \<subseteq> set ss"
  by (induction ss) (auto split: prod.splits)

lemma run_steps_prefix: "\<exists>n. fst (run_steps env ss) = take n ss"
proof (induction ss)
  case Nil
  show ?case by simp
next
  case (Cons s ss)
  then obtain n where n: "fst (run_steps env ss) = take n ss" by blast
  show ?case
  proof (cases "fails env s")
    case True
    then have "fst (run_steps env (s # ss)) = take (Suc 0) (s # ss)" by simp
    then show ?thesis by blast
  next
    case False
    with n have "fst (run_steps env (s # ss)) = take (Suc n) (s # ss)"
      by (cases "run_steps env ss") auto
    then show ?thesis by blast
  qed
qed

lemma run_steps_failure_in_trace:
  "run_steps env ss = (tr, Some x) \<Longrightarrow> \<exists>s \<in> set tr. fails env s \<and> x = StepFailed s"
proof (induction ss arbitrary: tr)
  case Nil
  then show ?case by simp
next
  case (Cons s ss)
  show ?case
  proof (cases "fails env s")
    case True
    with Cons.prems show ?thesis by auto
  next
    case False
    obtain tr' r where r: "run_steps env ss = (tr', r)" by (cases "run_steps env ss")
    with False Cons.prems have "tr = s # tr'" "r = Some x" by auto
    with Cons.IH[of tr'] r show ?thesis by auto
  qed
qed

lemma run_steps_no_failure:
  assumes "\<forall>s \<in> set (fst (run_steps env ss)). \<not> fails env s"
  shows "run_steps env ss = (ss, None)"
proof -
  obtain tr r where r: "run_steps env ss = (tr, r)" by (cases "run_steps env ss")
  show ?thesis
  proof (cases r)
    case None
    from r None have "set tr = set ss \<and> tr = ss"
    proof (induction ss arbitrary: tr)
      case Nil
      then show ?case by simp
    next
      case (Cons s ss)
      then show ?case by (auto split: if_splits prod.splits)
    qed
    with r None show ?thesis by simp
  next
    case (Some x)
    from run_steps_failure_in_trace[of env ss tr x] r Some assms show ?thesis by auto
  qed
qed

lemma run_steps_env_cong:
  "fails env' = fails env \<Longrightarrow> run_steps env' ss = run_steps env ss"
  by (induction ss) auto

subsection \<open>The responses\<close>

lemma JSONResponse_error:
  "JSONResponse (JObject [(''error'', JString msg)]) status_code =
   Response status_code (JObject [(''error'', JString msg)])"
  by (simp add: JSONResponse_def)



subsection \<open>The notification\<close>

lemma post_loop_events:
  "\<forall>e \<in> set (fst (post_loop env url payload i ds)). is_notification_event e"
proof (induction ds arbitrary: i)
  case Nil
  show ?case by simp
next
  case (Cons d ds)
  from Cons.IH[of "Suc i"] show ?case
    by (cases "post_loop env url payload (Suc i) ds") (auto split: post_result.splits)
qed

lemma post_loop_posts:
  "Post u p tmo \<in> set (fst (post_loop env url payload i ds)) \<Longrightarrow> u = url \<and> p = payload"
proof (induction ds arbitrary: i)
  case Nil
  then show ?case by simp
next
  case (Cons d ds)
  from Cons.prems Cons.IH[of "Suc i"] show ?case
    by (cases "post_loop env url payload (Suc i) ds")
       (auto split: post_result.splits if_splits)
qed

lemma post_loop_at_most:
  "length (filter is_post (fst (post_loop env url payload i ds))) \<le> length ds"
proof (induction ds arbitrary: i)
  case Nil
  show ?case by simp
next
  case (Cons d ds)
  from Cons.IH[of "Suc i"] show ?case
    by (cases "post_loop env url payload (Suc i) ds") (auto split: post_result.splits)
qed

lemma notify_cases:
  obtains "\<not> truthy url" "notify env url payload = ([], None)"
  | tr where "truthy url" "notify env url payload = (ImportRequests # tr, None)"
      "\<exists>raised. post_loop env url payload 0 [1, 2, 4, 8, 16] = (tr, raised)"
  | tr where "truthy url" "\<not> fails env PrintCallbackFailed"
      "notify env url payload = (ImportRequests # tr @ [PrintCallbackFailed], None)"
      "tr = [] \<or> (\<exists>raised. post_loop env url payload 0 [1, 2, 4, 8, 16] = (tr, raised))"
  | tr where "truthy url" "fails env PrintCallbackFailed"
      "notify env url payload =
         (ImportRequests # tr @ [PrintCallbackFailed], Some (StepFailed PrintCallbackFailed))"
      "tr = [] \<or> (\<exists>raised. post_loop env url payload 0 [1, 2, 4, 8, 16] = (tr, raised))"
proof -
  obtain tr raised where pl: "post_loop env url payload 0 [1, 2, 4, 8, 16] = (tr, raised)"
    by (cases "post_loop env url payload 0 [1, 2, 4, 8, 16]")
  show ?thesis
  proof (cases "truthy url")
    case False
    then have "notify env url payload = ([], None)" by (simp add: notify_def)
    with False that(1) show ?thesis by blast
  next
    case True
    show ?thesis
    proof (cases "import_requests_fails env")
      case imp: True
      show ?thesis
      proof (cases "fails env PrintCallbackFailed")
        case True
        with imp \<open>truthy url\<close> have
          "notify env url payload =
             (ImportRequests # [] @ [PrintCallbackFailed], Some (StepFailed PrintCallbackFailed))"
          by (simp add: notify_def)
        with True \<open>truthy url\<close> that(4)[of "[]"] show ?thesis by blast
      next
        case False
        with imp \<open>truthy url\<close> have
          "notify env url payload = (ImportRequests # [] @ [PrintCallbackFailed], None)"
          by (simp add: notify_def)
        with False \<open>truthy url\<close> that(3)[of "[]"] show ?thesis by blast
      qed
    next
      case imp: False
      show ?thesis
      proof (cases raised)
        case r: False
        with imp \<open>truthy url\<close> pl have "notify env url payload = (ImportRequests # tr, None)"
          by (simp add: notify_def del: post_loop.simps One_nat_def)
        with \<open>truthy url\<close> pl that(2)[of tr] show ?thesis by blast
      next
        case r: True
        show ?thesis
        proof (cases "fails env PrintCallbackFailed")
          case True
          with imp r \<open>truthy url\<close> pl have
            "notify env url payload =
               (ImportRequests # tr @ [PrintCallbackFailed], Some (StepFailed PrintCallbackFailed))"
            by (simp add: notify_def del: post_loop.simps One_nat_def)
          with True \<open>truthy url\<close> pl that(4)[of tr] show ?thesis by blast
        next
          case False
          with imp r \<open>truthy url\<close> pl have
            "notify env url payload = (ImportRequests # tr @ [PrintCallbackFailed], None)"
            by (simp add: notify_def del: post_loop.simps One_nat_def)
          with False \<open>truthy url\<close> pl that(3)[of tr] show ?thesis by blast
        qed
      qed
    qed
  qed
qed

lemma notify_events: "\<forall>e \<in> set (fst (notify env url payload)). is_notification_event e"
proof (cases rule: notify_cases[of url env payload])
  case 1
  then show ?thesis by simp
next
  case (2 tr)
  with post_loop_events[of env url payload 0 "[1, 2, 4, 8, 16]"] show ?thesis by auto
next
  case (3 tr)
  with post_loop_events[of env url payload 0 "[1, 2, 4, 8, 16]"] show ?thesis by auto
next
  case (4 tr)
  with post_loop_events[of env url payload 0 "[1, 2, 4, 8, 16]"] show ?thesis by auto
qed

lemma notify_posts:
  assumes "Post u p tmo \<in> set (fst (notify env url payload))"
  shows "u = url \<and> p = payload"
proof (cases rule: notify_cases[of url env payload])
  case 1
  with assms show ?thesis by simp
next
  case (2 tr)
  with assms post_loop_posts[of u p tmo env url payload 0 "[1, 2, 4, 8, 16]"] show ?thesis
    by auto
next
  case (3 tr)
  with assms post_loop_posts[of u p tmo env url payload 0 "[1, 2, 4, 8, 16]"] show ?thesis
    by auto
next
  case (4 tr)
  with assms post_loop_posts[of u p tmo env url payload 0 "[1, 2, 4, 8, 16]"] show ?thesis
    by auto
qed

lemma notify_failure_in_trace:
  assumes "snd (notify env url payload) = Some x"
  shows "x = StepFailed PrintCallbackFailed \<and> fails env PrintCallbackFailed \<and>
         PrintCallbackFailed \<in> set (fst (notify env url payload))"
  using assms by (cases rule: notify_cases[of url env payload]) auto

lemma notify_logged_never_raises:
  "\<not> fails env PrintCallbackFailed \<Longrightarrow> snd (notify env url payload) = None"
  by (cases rule: notify_cases[of url env payload]) auto

lemma notify_skipped: "\<not> truthy url \<Longrightarrow> notify env url payload = ([], None)"
  by (simp add: notify_def)

lemma notify_all_failures:
  assumes "truthy url" and "\<not> import_requests_fails env"
    and "\<forall>i<5. \<exists>c. post env i = Status c \<and> c \<noteq> 200"
  shows "notify env url payload =
     ([ImportRequests,
       Post url payload 10, Sleep 1, Post url payload 10, Sleep 2, Post url payload 10, Sleep 4,
       Post url payload 10, Sleep 8, Post url payload 10, Sleep 16], None)"
proof -
  from assms(3)[rule_format, of 0] obtain c0 where
    c0: "post env 0 = Status c0" "c0 \<noteq> 200" by auto
  from assms(3)[rule_format, of "Suc 0"] obtain c1 where
    c1: "post env (Suc 0) = Status c1" "c1 \<noteq> 200" by auto
  from assms(3)[rule_format, of "Suc (Suc 0)"] obtain c2 where
    c2: "post env (Suc (Suc 0)) = Status c2" "c2 \<noteq> 200" by auto
  from assms(3)[rule_format, of "Suc (Suc (Suc 0))"] obtain c3 where
    c3: "post env (Suc (Suc (Suc 0))) = Status c3" "c3 \<noteq> 200" by auto
  from assms(3)[rule_format, of "Suc (Suc (Suc (Suc 0)))"] obtain c4 where
    c4: "post env (Suc (Suc (Suc (Suc 0)))) = Status c4" "c4 \<noteq> 200" by auto
  from assms(1,2) c0 c1 c2 c3 c4 show ?thesis by (simp add: notify_def)
qed

lemma notify_first_post_raises:
  assumes "truthy url" and "\<not> import_requests_fails env" and "post env 0 = Raises"
  shows "notify env url payload =
     ([ImportRequests, Post url payload 10, PrintCallbackFailed],
      if fails env PrintCallbackFailed then Some (StepFailed PrintCallbackFailed) else None)"
  using assms by (simp add: notify_def)

lemma notify_stops_at_200:
  assumes "truthy url" and "\<not> import_requests_fails env" and "post env 0 = Status 200"
  shows "notify env url payload = ([ImportRequests, Post url payload 10], None)"
  using assms by (simp add: notify_def)

subsection \<open>The handler after authentication\<close>

lemma run_steps_None:
  "run_steps env ss = (tr, None) \<Longrightarrow> tr = ss \<and> (\<forall>s \<in> set ss. \<not> fails env s)"
proof (induction ss arbitrary: tr)
  case Nil
  then show ?case by simp
next
  case (Cons s ss)
  obtain tr' r where r: "run_steps env ss = (tr', r)" by (cases "run_steps env ss")
  from Cons.prems r have "\<not> fails env s" "tr = s # tr'" "r = None"
    by (auto split: if_splits)
  with Cons.IH[of tr'] r show ?case by auto
qed

lemma handle_authenticated:
  "authenticated env data \<Longrightarrow> extract_fields env data = Inr f \<Longrightarrow>
   handle_request env (Some (JObject data)) = deploy env f"
  by (simp add: handle_request_def authenticated_def)

lemma deploy_cases:
  obtains
    (makedirs) "fails env (MakeDirs (repo_path env f))"
      "deploy env f = (Fault (StepFailed (MakeDirs (repo_path env f))), [MakeDirs (repo_path env f)])"
  | (print) "\<not> fails env (MakeDirs (repo_path env f))" "fails env (PrintGenerating (task f))"
      "deploy env f =
         (Fault (StepFailed (PrintGenerating (task f))),
          [MakeDirs (repo_path env f), PrintGenerating (task f)])"
  | (generation) msg where
      "\<not> fails env (MakeDirs (repo_path env f))" "\<not> fails env (PrintGenerating (task f))"
      "generate_app_from_brief env (brief f) = Inl msg"
      "deploy env f =
         (Response 500 (JObject [(''error'', JString (''LLM generation failed: '' @ msg))]),
          prepare_events env f)"
  | (step) code tr x where
      "\<not> fails env (MakeDirs (repo_path env f))" "\<not> fails env (PrintGenerating (task f))"
      "generate_app_from_brief env (brief f) = Inr code"
      "run_steps env (write_files env f code @ publish_steps env f) = (tr, Some x)"
      "deploy env f = (Fault x, prepare_events env f @ tr)"
  | (log) code tr x where
      "\<not> fails env (MakeDirs (repo_path env f))" "\<not> fails env (PrintGenerating (task f))"
      "generate_app_from_brief env (brief f) = Inr code"
      "\<forall>s \<in> set (write_files env f code @ publish_steps env f). \<not> fails env s"
      "notify env (evaluation_url f) (response_payload env f) = (tr, Some x)"
      "deploy env f =
         (Fault x, prepare_events env f @ write_files env f code @ publish_steps env f @ tr)"
  | (response) code tr where
      "\<not> fails env (MakeDirs (repo_path env f))" "\<not> fails env (PrintGenerating (task f))"
      "generate_app_from_brief env (brief f) = Inr code"
      "\<forall>s \<in> set (write_files env f code @ publish_steps env f). \<not> fails env s"
      "notify env (evaluation_url f) (response_payload env f) = (tr, None)"
      "deploy env f =
         (JSONResponse (response_payload env f) 200,
          prepare_events env f @ write_files env f code @ publish_steps env f @ tr)"
proof (cases "fails env (MakeDirs (repo_path env f))")
  case True
  then have "deploy env f =
      (Fault (StepFailed (MakeDirs (repo_path env f))), [MakeDirs (repo_path env f)])"
    by (simp add: deploy_def)
  with True makedirs show ?thesis by blast
next
  case mk: False
  show ?thesis
  proof (cases "fails env (PrintGenerating (task f))")
    case True
    with mk have "deploy env f =
         (Fault (StepFailed (PrintGenerating (task f))),
          [MakeDirs (repo_path env f), PrintGenerating (task f)])"
      by (simp add: deploy_def)
    with mk True print show ?thesis by blast
  next
    case pr: False
    from mk pr have first: "run_steps env [MakeDirs (repo_path env f), PrintGenerating (task f)] =
        ([MakeDirs (repo_path env f), PrintGenerating (task f)], None)"
      by simp
    show ?thesis
    proof (cases "generate_app_from_brief env (brief f)")
      case (Inl msg)
      with first have "deploy env f =
         (Response 500 (JObject [(''error'', JString (''LLM generation failed: '' @ msg))]),
          prepare_events env f)"
        by (simp add: deploy_def prepare_events_def JSONResponse_error del: run_steps.simps)
      with mk pr Inl generation show ?thesis by blast
    next
      case (Inr code)
      obtain tr2 r2 where rs:
        "run_steps env (write_files env f code @ publish_steps env f) = (tr2, r2)"
        by (cases "run_steps env (write_files env f code @ publish_steps env f)")
      show ?thesis
      proof (cases r2)
        case (Some x)
        with first Inr rs have "deploy env f = (Fault x, prepare_events env f @ tr2)"
          by (simp add: deploy_def prepare_events_def del: run_steps.simps)
        with mk pr Inr rs Some step show ?thesis by blast
      next
        case None
        from run_steps_None[of env _ tr2] rs None
        have tr2: "tr2 = write_files env f code @ publish_steps env f"
          and ok: "\<forall>s \<in> set (write_files env f code @ publish_steps env f). \<not> fails env s"
          by auto
        obtain tr3 r3 where nt:
          "notify env (evaluation_url f) (response_payload env f) = (tr3, r3)"
          by (cases "notify env (evaluation_url f) (response_payload env f)")
        show ?thesis
        proof (cases r3)
          case (Some x)
          with first Inr rs None nt tr2 have "deploy env f =
             (Fault x, prepare_events env f @ write_files env f code @ publish_steps env f @ tr3)"
            by (simp add: deploy_def prepare_events_def del: run_steps.simps)
          with mk pr Inr ok nt Some log show ?thesis by blast
        next
          case r3: None
          with first Inr rs None nt tr2 have "deploy env f =
             (JSONResponse (response_payload env f) 200,
              prepare_events env f @ write_files env f code @ publish_steps env f @ tr3)"
            by (simp add: deploy_def prepare_events_def del: run_steps.simps)
          with mk pr Inr ok nt r3 response show ?thesis by blast
        qed
      qed
    qed
  qed
qed

lemma deploy_generation_fails:
  assumes "\<not> fails env (MakeDirs (repo_path env f))"
    and "generate_app_from_brief env (brief f) = Inl msg"
  shows "deploy env f =
     (if fails env (PrintGenerating (task f))
      then (Fault (StepFailed (PrintGenerating (task f))),
            [MakeDirs (repo_path env f), PrintGenerating (task f)])
      else (Response 500 (JObject [(''error'', JString (''LLM generation failed: '' @ msg))]),
            [MakeDirs (repo_path env f), PrintGenerating (task f), Generate (brief f)]))"
  using assms by (simp add: deploy_def JSONResponse_error)

lemma first_steps_ok:
  "\<not> fails env (MakeDirs p) \<Longrightarrow> \<not> fails env (PrintGenerating t) \<Longrightarrow>
   run_steps env [MakeDirs p, PrintGenerating t] = ([MakeDirs p, PrintGenerating t], None)"
  by simp

lemma deploy_publish_fails:
  assumes "\<not> fails env (MakeDirs (repo_path env f))"
    and "\<not> fails env (PrintGenerating (task f))"
    and "generate_app_from_brief env (brief f) = Inr code"
    and "\<forall>s \<in> set (write_files env f code). \<not> fails env s"
    and "k < length (publish_steps env f)"
    and "\<forall>i<k. \<not> fails env (publish_steps env f ! i)"
    and "fails env (publish_steps env f ! k)"
  shows "deploy env f =
     (Fault (StepFailed (publish_steps env f ! k)),
      prepare_events env f @ write_files env f code @ take (Suc k) (publish_steps env f))"
proof -
  from run_steps_append_ok[OF assms(4), of "publish_steps env f"]
       run_steps_first_failure[OF assms(5-7)]
  have "run_steps env (write_files env f code @ publish_steps env f) =
          (write_files env f code @ take (Suc k) (publish_steps env f),
           Some (StepFailed (publish_steps env f ! k)))"
    by simp
  with assms(3) first_steps_ok[OF assms(1,2)] show ?thesis
    by (simp add: deploy_def prepare_events_def del: run_steps.simps)
qed

lemma deploy_success:
  assumes "\<not> fails env (MakeDirs (repo_path env f))"
    and "\<not> fails env (PrintGenerating (task f))"
    and "generate_app_from_brief env (brief f) = Inr code"
    and "\<forall>s \<in> set (write_files env f code @ publish_steps env f). \<not> fails env s"
  shows "deploy env f =
     (case snd (notify env (evaluation_url f) (response_payload env f)) of
        Some x \<Rightarrow> Fault x
      | None \<Rightarrow> JSONResponse (response_payload env f) 200,
      prepare_events env f @ write_files env f code @ publish_steps env f @
      fst (notify env (evaluation_url f) (response_payload env f)))"
proof -
  from run_steps_all_ok[OF assms(4)]
  have "run_steps env (write_files env f code @ publish_steps env f) =
          (write_files env f code @ publish_steps env f, None)" .
  with assms(3) first_steps_ok[OF assms(1,2)] show ?thesis
    by (cases "notify env (evaluation_url f) (response_payload env f)")
       (simp add: deploy_def prepare_events_def del: run_steps.simps split: option.splits)
qed

lemma steps_are_no_notification:
  "e \<in> set (prepare_events env f @ write_files env f code @ publish_steps env f) \<Longrightarrow>
   \<not> is_notification_event e"
  by (auto simp: prepare_events_def write_files_def publish_steps_def git_setup_def
        gh_repo_create_def gh_enable_pages_def git_rev_parse_def)

lemma filter_steps_prefix:
  "filter (\<lambda>x. \<not> is_notification_event x)
     (take n (prepare_events env f @ write_files env f code @ publish_steps env f)) =
   take n (prepare_events env f @ write_files env f code @ publish_steps env f)"
proof -
  have "\<forall>x \<in> set (take n (prepare_events env f @ write_files env f code @ publish_steps env f)).
          \<not> is_notification_event x"
    using steps_are_no_notification[of _ env f code] by (meson in_set_takeD)
  then show ?thesis by (rule filter_True)
qed

lemma filter_keep_then_drop:
  assumes "\<forall>x \<in> set xs. P x" and "\<forall>x \<in> set ys. \<not> P x"
  shows "filter P (xs @ ys) = xs"
proof -
  from assms(1) have 1: "filter P xs = xs" by (rule filter_True)
  from assms(2) have 2: "filter P ys = []" by (simp add: filter_empty_conv)
  show ?thesis by (simp only: filter_append 1 2 append_Nil2)
qed

lemma filter_steps_then_notification:
  assumes "\<forall>e \<in> set tr. is_notification_event e"
  shows "filter (\<lambda>x. \<not> is_notification_event x)
           (prepare_events env f @ write_files env f code @ publish_steps env f @ tr) =
         prepare_events env f @ write_files env f code @ publish_steps env f"
proof -
  have a: "\<forall>x \<in> set (prepare_events env f @ write_files env f code @ publish_steps env f).
             \<not> is_notification_event x"
    using steps_are_no_notification[of _ env f code] by blast
  from assms have b: "\<forall>x \<in> set tr. \<not> \<not> is_notification_event x" by simp
  from filter_keep_then_drop[OF a b] show ?thesis by simp
qed

lemma deploy_trace_events:
  assumes "e \<in> set (snd (deploy env f))"
  shows "e \<in> set (prepare_events env f) \<or> (\<exists>code. e \<in> set (write_files env f code)) \<or>
         e \<in> set (publish_steps env f) \<or>
         e \<in> set (fst (notify env (evaluation_url f) (response_payload env f)))"
proof (cases rule: deploy_cases[of env f])
  case makedirs
  with assms show ?thesis by (auto simp: prepare_events_def)
next
  case print
  with assms show ?thesis by (auto simp: prepare_events_def)
next
  case (generation msg)
  with assms show ?thesis by auto
next
  case (step code tr x)
  from run_steps_subset[of env "write_files env f code @ publish_steps env f"] step(4)
  have "set tr \<subseteq> set (write_files env f code) \<union> set (publish_steps env f)" by simp
  with assms step(5) show ?thesis by auto
next
  case (log code tr x)
  with assms show ?thesis by auto
next
  case (response code tr)
  with assms show ?thesis by auto
qed

lemma deploy_prefix:
  "\<exists>code n. filter (\<lambda>x. \<not> is_notification_event x) (snd (deploy env f)) =
     take n (prepare_events env f @ write_files env f code @ publish_steps env f)"
proof (cases rule: deploy_cases[of env f])
  case makedirs
  then have "snd (deploy env f) =
      take 1 (prepare_events env f @ write_files env f [] @ publish_steps env f)"
    by (simp add: prepare_events_def)
  with filter_steps_prefix[of 1 env f "[]"] show ?thesis by metis
next
  case print
  then have "snd (deploy env f) =
      take 2 (prepare_events env f @ write_files env f [] @ publish_steps env f)"
    by (simp add: prepare_events_def)
  with filter_steps_prefix[of 2 env f "[]"] show ?thesis by metis
next
  case (generation msg)
  then have "snd (deploy env f) =
      take 3 (prepare_events env f @ write_files env f [] @ publish_steps env f)"
    by (simp add: prepare_events_def)
  with filter_steps_prefix[of 3 env f "[]"] show ?thesis by metis
next
  case (step code tr x)
  from run_steps_prefix[of env "write_files env f code @ publish_steps env f"] step(4)
  obtain n where n: "tr = take n (write_files env f code @ publish_steps env f)" by auto
  have "prepare_events env f @ take n (write_files env f code @ publish_steps env f) =
        take (length (prepare_events env f) + n)
          (prepare_events env f @ write_files env f code @ publish_steps env f)"
    by simp
  with step(5) n have "snd (deploy env f) =
      take (length (prepare_events env f) + n)
        (prepare_events env f @ write_files env f code @ publish_steps env f)"
    by simp
  with filter_steps_prefix[of "length (prepare_events env f) + n" env f code]
  show ?thesis by metis
next
  case (log code tr x)
  from notify_events[of env "evaluation_url f" "response_payload env f"] log(5)
  have "\<forall>e \<in> set tr. is_notification_event e" by simp
  from filter_steps_then_notification[OF this, of env f code] log(6)
  have "filter (\<lambda>x. \<not> is_notification_event x) (snd (deploy env f)) =
      take (length (prepare_events env f @ write_files env f code @ publish_steps env f))
        (prepare_events env f @ write_files env f code @ publish_steps env f)"
    by simp
  then show ?thesis by blast
next
  case (response code tr)
  from notify_events[of env "evaluation_url f" "response_payload env f"] response(5)
  have "\<forall>e \<in> set tr. is_notification_event e" by simp
  from filter_steps_then_notification[OF this, of env f code] response(6)
  have "filter (\<lambda>x. \<not> is_notification_event x) (snd (deploy env f)) =
      take (length (prepare_events env f @ write_files env f code @ publish_steps env f))
        (prepare_events env f @ write_files env f code @ publish_steps env f)"
    by simp
  then show ?thesis by blast
qed

lemma deploy_posts:
  assumes "Post u p tmo \<in> set (snd (deploy env f))"
  shows "u = evaluation_url f \<and> p = response_payload env f"
proof -
  from deploy_trace_events[OF assms] steps_are_no_notification[of "Post u p tmo" env f]
  have "Post u p tmo \<in> set (fst (notify env (evaluation_url f) (response_payload env f)))"
    by auto
  then show ?thesis by (rule notify_posts)
qed

lemma deploy_response_200:
  assumes "fst (deploy env f) = Response 200 body"
  shows "body = response_payload env f"
  using assms
  by (cases rule: deploy_cases[of env f]) (auto simp: JSONResponse_def split: if_splits)

lemma deploy_no_failure:
  assumes "generate_app_from_brief env (brief f) = Inr code"
    and "\<forall>s \<in> set (snd (deploy env f)). \<not> fails env s"
  shows "deploy env f =
     (JSONResponse (response_payload env f) 200,
      prepare_events env f @ write_files env f code @ publish_steps env f @
      fst (notify env (evaluation_url f) (response_payload env f)))"
proof (cases rule: deploy_cases[of env f])
  case makedirs
  with assms(2) show ?thesis by simp
next
  case print
  with assms(2) show ?thesis by simp
next
  case (generation msg)
  with assms(1) show ?thesis by simp
next
  case (step code' tr x)
  from run_steps_failure_in_trace[OF step(4)] step(5) assms(2) show ?thesis by auto
next
  case (log code' tr x)
  from notify_failure_in_trace[of env "evaluation_url f" "response_payload env f" x] log(5,6)
    assms(2)
  show ?thesis by auto
next
  case (response code' tr)
  with assms(1) show ?thesis by simp
qed

subsection \<open>Evaluation of the concrete requests\<close>

lemmas handler_defs =
  handle_request_def deploy_def authenticated_def extract_fields_def dict_get_def
  dict_get_default_def generate_app_from_brief_def prompt_def fmt_def
  write_files_def publish_steps_def git_setup_def gh_repo_create_def gh_enable_pages_def
  git_rev_parse_def repo_path_def repo_name_def path_join_def readme_text_def license_text_def
  response_payload_def repo_url_def pages_url_def commit_sha_def notify_def prepare_events_def
  JSONResponse_def escape_str_def replace_char_def lower_def lower_char_def show_int_def
  show_nat.simps digit_char_def strip_def is_space_def spec_identity_def int_of_str_def
  strip_int_space_def is_int_space_def max_str_digits_def unsigned_of_str_def is_digit_def
  digit_val_def

lemmas env_defs =
  env_ok_def env_llm_down_def env_repo_exists_def env_callback_500_def env_callback_down_def
  env_log_fails_def quiz_data_def quiz_fields_def quiz_payload_def quiz_cb_data_def
  markup_data_def markup_fields_def markup_payload_def bad_round_data_def bad_email_data_def
  nan_nonce_data_def

lemma quiz_authenticated: "authenticated env_ok quiz_data"
  by (simp add: handler_defs env_defs)

lemma quiz_extract: "extract_fields env_ok quiz_data = Inr quiz_fields"
  by (simp add: handler_defs env_defs)

lemma markup_authenticated: "authenticated env_ok markup_data"
  by (simp add: authenticated_def dict_get_def env_defs)

lemma markup_extract: "extract_fields env_ok markup_data = Inr markup_fields"
  by (simp add: handler_defs env_defs)

lemma int_of_str_examples:
  "int_of_str '' -1_2 '' = Some (- 12)"
  "int_of_str ''two'' = None"
  "int_of_str [CHR 0x1C, CHR ''7''] = None"
  "int_of_str [CHR ''7'', CHR 0x1F] = None"
  "int_of_str [CHR 0x09, CHR ''7'', CHR 0x0D] = Some 7"
  "int_of_str ''1__0'' = None"
  "int_of_str ''+'' = None"
  by (simp_all add: int_of_str_def strip_int_space_def is_int_space_def unsigned_of_str_def
        is_digit_def digit_val_def max_str_digits_def)

lemma int_of_str_digit_limit:
  "int_of_str (replicate 4301 (CHR ''7'')) = None"
proof -
  have d: "is_digit (CHR ''7'')" "\<not> is_int_space (CHR ''7'')"
    by (simp_all add: is_digit_def is_int_space_def)
  have r: "replicate 4301 (CHR ''7'') = CHR ''7'' # replicate 4300 (CHR ''7'')"
    by (simp add: replicate_Suc[symmetric] del: replicate_Suc)
  have s: "strip_int_space (replicate 4301 (CHR ''7'')) = replicate 4301 (CHR ''7'')"
    using d(2) by (simp add: strip_int_space_def dropWhile_eq_self_iff hd_rev last_replicate r)
  have "length (filter is_digit (replicate 4301 (CHR ''7''))) = 4301"
    using d(1) by simp
  then show ?thesis
    unfolding int_of_str_def s
    by (simp add: r unsigned_of_str_def max_str_digits_def d(1) del: replicate_Suc)
qed

text \<open>A nonce that holds a NaN: the repository is published, and then the response
  cannot be built.\<close>

lemma nan_nonce_cannot_be_serialised:
  "handle_request env_ok (Some (JObject nan_nonce_data)) = (Fault ValueError, quiz_events)"
  by (simp add: handler_defs env_defs quiz_events_def)

subsection \<open>Rejected requests, conversion faults and generation failure\<close>

text \<open>Claim C3. A body that cannot be parsed is answered with 400, and a parsed object
  whose \<open>secret\<close> is not the stored credential is answered with 403; in both cases the trace
  of external actions is empty, so no generator, file, tool or callback is reached. More
  generally, whenever the handler performs any external action the body was an object that
  passed the secret check.\<close>

theorem rejected_before_any_side_effect:
  "handle_request env None = (Response 400 (JObject [(''error'', JString ''Invalid JSON'')]), [])
   \<and> (\<not> authenticated env data \<longrightarrow>
        handle_request env (Some (JObject data)) =
          (Response 403 (JObject [(''error'', JString ''Invalid secret'')]), []))
   \<and> (snd (handle_request env body) \<noteq> [] \<longrightarrow>
        (\<exists>d. body = Some (JObject d) \<and> authenticated env d))"
  by (auto simp: handle_request_def authenticated_def JSONResponse_error
        split: option.splits json.splits sum.splits)

text \<open>A wrong secret is refused without any action, while the end-to-end request, which
  does act, is authenticated.\<close>

theorem rejected_before_any_side_effect_witness:
  "\<not> authenticated env_ok [(''secret'', JString ''guess'')] \<and>
   handle_request env_ok (Some (JObject [(''secret'', JString ''guess'')])) =
     (Response 403 (JObject [(''error'', JString ''Invalid secret'')]), []) \<and>
   snd (handle_request env_ok (Some (JObject quiz_data))) \<noteq> [] \<and>
   authenticated env_ok quiz_data"
proof -
  have a: "\<not> authenticated env_ok [(''secret'', JString ''guess'')]"
    by (simp add: authenticated_def dict_get_def env_ok_def)
  have b: "snd (handle_request env_ok (Some (JObject quiz_data))) \<noteq> []"
    by (simp add: handler_defs env_defs)
  from rejected_before_any_side_effect
         [of env_ok "[(''secret'', JString ''guess'')]" "Some (JObject quiz_data)"] a b
  show ?thesis by auto
qed

lemma html_escape_Inl: "html_escape v = Inl e \<Longrightarrow> e = AttributeError"
  by (cases v) auto

lemma html_escape_Inr: "html_escape v = Inr s \<Longrightarrow> \<exists>t. v = JString t \<and> s = escape_str t"
  by (cases v) auto

lemma html_escape_string_or_absent:
  "string_or_absent data k \<Longrightarrow> \<exists>s. html_escape (dict_get_default data k (JString d)) = Inr s"
  by (auto simp: string_or_absent_def dict_get_default_def split: option.splits json.splits)

lemma html_escape_not_string:
  "\<not> string_or_absent data k \<Longrightarrow>
   html_escape (dict_get_default data k (JString d)) = Inl AttributeError"
  by (auto simp: string_or_absent_def dict_get_default_def split: option.splits json.splits)

text \<open>Claim C10, as stated, fails: the round \<^verbatim>\<open>"two"\<close> cannot be converted, but the email of
  this request is the number 5, and \<^verbatim>\<open>html.escape\<close> on line 78 raises \<^verbatim>\<open>AttributeError\<close> before
  \<^verbatim>\<open>int\<close> is reached on line 80. The fault is not a conversion error.\<close>

theorem unconvertible_round_counterexample:
  "authenticated env_ok bad_email_data \<and>
   map_of bad_email_data ''round'' = Some (JString ''two'') \<and>
   py_int (JString ''two'') = Inl ValueError \<and>
   handle_request env_ok (Some (JObject bad_email_data)) = (Fault AttributeError, [])"
  by (simp add: handler_defs env_defs)

text \<open>Claim C10, amended. When the request is authenticated and its \<open>round\<close> field is present
  but \<^verbatim>\<open>int\<close> raises on it, the handler returns no response: an exception escapes, and the
  trace is empty, so no directory was created and no file written. The exception is the
  conversion error itself when \<open>email\<close> and \<open>task\<close> are strings or absent, and the
  \<^verbatim>\<open>AttributeError\<close> of \<^verbatim>\<open>html.escape\<close> (line 78 or 79) when one of them is present and not a
  string.\<close>

theorem unconvertible_round_is_unhandled_fault:
  assumes "authenticated env data"
    and "map_of data ''round'' = Some r"
    and "py_int r = Inl err"
  shows "handle_request env (Some (JObject data)) =
     (Fault (if string_or_absent data ''email'' \<and> string_or_absent data ''task''
             then err else AttributeError), [])"
proof (cases "string_or_absent data ''email''")
  case False
  from html_escape_not_string[OF this, of "''student@example.com''"] assms(1) show ?thesis
    by (simp add: handle_request_def authenticated_def extract_fields_def False)
next
  case e: True
  from html_escape_string_or_absent[OF this, of "''student@example.com''"]
  obtain s where s: "html_escape (dict_get_default data ''email''
      (JString ''student@example.com'')) = Inr s"
    by blast
  show ?thesis
  proof (cases "string_or_absent data ''task''")
    case False
    from html_escape_not_string[OF this, of "''task-'' @ take 6 (uuid4_hex env)"] assms(1) s
    show ?thesis
      by (simp add: handle_request_def authenticated_def extract_fields_def False)
  next
    case True
    from html_escape_string_or_absent[OF this, of "''task-'' @ take 6 (uuid4_hex env)"]
    obtain t where t: "html_escape (dict_get_default data ''task''
        (JString (''task-'' @ take 6 (uuid4_hex env)))) = Inr t"
      by blast
    from assms(2,3) have "py_int (dict_get_default data ''round'' (JInt 1)) = Inl err"
      by (simp add: dict_get_default_def)
    with assms(1) s t e True show ?thesis
      by (simp add: handle_request_def authenticated_def extract_fields_def)
  qed
qed

text \<open>The round \<^verbatim>\<open>"two"\<close> of a request without email raises \<^verbatim>\<open>ValueError\<close>.\<close>

theorem unconvertible_round_is_unhandled_fault_witness:
  "authenticated env_ok bad_round_data \<and>
   map_of bad_round_data ''round'' = Some (JString ''two'') \<and>
   py_int (JString ''two'') = Inl ValueError \<and>
   string_or_absent bad_round_data ''email'' \<and> string_or_absent bad_round_data ''task'' \<and>
   handle_request env_ok (Some (JObject bad_round_data)) = (Fault ValueError, [])"
proof -
  have a: "authenticated env_ok bad_round_data"
    by (simp add: authenticated_def dict_get_def env_defs)
  have r: "map_of bad_round_data ''round'' = Some (JString ''two'')"
    by (simp add: env_defs)
  have p: "py_int (JString ''two'') = Inl ValueError"
    by (simp add: int_of_str_examples)
  have s: "string_or_absent bad_round_data ''email'' \<and> string_or_absent bad_round_data ''task''"
    by (simp add: string_or_absent_def env_defs)
  from unconvertible_round_is_unhandled_fault[OF a r p] a r p s
  show ?thesis by simp
qed

text \<open>Claim C4, as stated, fails: the project directory is created on line 89, before the
  generator is called on line 94, so a file-system action precedes the 500.\<close>

theorem generation_failure_counterexample:
  "fst (handle_request env_llm_down (Some (JObject quiz_data))) =
     Response 500 (JObject [(''error'', JString ''LLM generation failed: boom'')]) \<and>
   MakeDirs ''./workspace/quiz-app-1'' \<in> set (snd (handle_request env_llm_down (Some (JObject quiz_data))))"
  by (simp add: handler_defs env_defs)

text \<open>Claim C4, amended. For an authenticated request whose fields are extracted and whose
  project directory is created, a failing generator gives the response 500 with the text of
  the failure, and the only actions performed are the creation of the project directory, the
  log line and the generator call: no file is written, no tool is run, no callback is sent.
  The generator is called after the log line of line 92 has been written; were that
  \<^verbatim>\<open>print\<close> to raise, the generator would not be called at all and the run would end there.\<close>

theorem generation_failure_is_500_after_makedirs:
  assumes "authenticated env data"
    and "extract_fields env data = Inr f"
    and "\<not> fails env (MakeDirs (repo_path env f))"
    and "generate_app_from_brief env (brief f) = Inl msg"
  shows "handle_request env (Some (JObject data)) =
     (if fails env (PrintGenerating (task f))
      then (Fault (StepFailed (PrintGenerating (task f))),
            [MakeDirs (repo_path env f), PrintGenerating (task f)])
      else (Response 500 (JObject [(''error'', JString (''LLM generation failed: '' @ msg))]),
            [MakeDirs (repo_path env f), PrintGenerating (task f), Generate (brief f)]))"
  using handle_authenticated[OF assms(1,2)] deploy_generation_fails[OF assms(3,4)]
  by simp

text \<open>The end-to-end request with a generator that raises.\<close>

theorem generation_failure_is_500_after_makedirs_witness:
  "authenticated env_llm_down quiz_data \<and>
   extract_fields env_llm_down quiz_data = Inr quiz_fields \<and>
   \<not> fails env_llm_down (MakeDirs (repo_path env_llm_down quiz_fields)) \<and>
   generate_app_from_brief env_llm_down (brief quiz_fields) = Inl ''boom'' \<and>
   handle_request env_llm_down (Some (JObject quiz_data)) =
     (Response 500 (JObject [(''error'', JString ''LLM generation failed: boom'')]),
      [MakeDirs ''./workspace/quiz-app-1'', PrintGenerating ''Quiz App'',
       Generate (JString ''a quiz app'')])"
proof -
  have a: "authenticated env_llm_down quiz_data"
    by (simp add: authenticated_def dict_get_def env_defs)
  have x: "extract_fields env_llm_down quiz_data = Inr quiz_fields"
    by (simp add: handler_defs env_defs)
  have m: "\<not> fails env_llm_down (MakeDirs (repo_path env_llm_down quiz_fields))"
    by (simp add: env_defs)
  have g: "generate_app_from_brief env_llm_down (brief quiz_fields) = Inl ''boom''"
    by (simp add: generate_app_from_brief_def env_defs)
  have p: "repo_path env_llm_down quiz_fields = ''./workspace/quiz-app-1''"
    by (simp add: handler_defs env_defs)
  have l: "\<not> fails env_llm_down (PrintGenerating (task quiz_fields))"
    by (simp add: env_defs)
  from generation_failure_is_500_after_makedirs[OF a x m g] a x m g p l
  show ?thesis by (simp add: quiz_fields_def)
qed

subsection \<open>The callback attempts\<close>

text \<open>Claim C1, evaluated where it fails. The callback answers 500 to every attempt. The
  handler makes five attempts and sleeps after each of them, so after the fifth and last
  attempt it still waits 16 before it returns the response: the loop of lines 150 to 159
  sleeps at the end of every iteration that did not see a 200, the last one included.\<close>

theorem failing_callback_sleeps_after_fifth_attempt:
  "handle_request env_callback_500 (Some (JObject quiz_cb_data)) =
     (Response 200 quiz_payload,
      quiz_events @
      [ImportRequests,
       Post (JString ''http://cb'') quiz_payload 10, Sleep 1,
       Post (JString ''http://cb'') quiz_payload 10, Sleep 2,
       Post (JString ''http://cb'') quiz_payload 10, Sleep 4,
       Post (JString ''http://cb'') quiz_payload 10, Sleep 8,
       Post (JString ''http://cb'') quiz_payload 10, Sleep 16])"
  by (simp add: handler_defs env_defs quiz_events_def)

text \<open>Claim C5, evaluated where it fails. Every POST raises. The \<^verbatim>\<open>try\<close> of line 148 encloses
  the whole loop, so the exception of the first attempt leaves the loop: one attempt, no
  wait, no second attempt, then the log line.\<close>

theorem transport_failure_ends_all_attempts:
  "handle_request env_callback_down (Some (JObject quiz_cb_data)) =
     (Response 200 quiz_payload,
      quiz_events @
      [ImportRequests, Post (JString ''http://cb'') quiz_payload 10, PrintCallbackFailed])"
  by (simp add: handler_defs env_defs quiz_events_def)

text \<open>Claim C6, evaluated where it fails. Every POST raises and the log line of line 161
  cannot be written. The exception of the POST is caught on line 160, but the \<^verbatim>\<open>print\<close> of
  line 161 stands in the handler of the exception, outside any \<^verbatim>\<open>try\<close>: what it raises leaves
  the notification and the request handler, after the repository has been published, and
  the success response built on lines 136 to 144 is never returned.\<close>

theorem failing_log_line_leaves_the_handler:
  "handle_request env_log_fails (Some (JObject quiz_cb_data)) =
     (Fault (StepFailed PrintCallbackFailed),
      quiz_events @
      [ImportRequests, Post (JString ''http://cb'') quiz_payload 10, PrintCallbackFailed])"
  by (simp add: handler_defs env_defs quiz_events_def)

subsection \<open>Escaping\<close>

lemma replace_char_Nil: "replace_char c r [] = []"
  by (simp add: replace_char_def)

lemma replace_char_Cons:
  "replace_char c r (x # s) = (if x = c then r else [x]) @ replace_char c r s"
  by (simp add: replace_char_def)

lemma replace_char_absent: "c \<notin> set s \<Longrightarrow> replace_char c r s = s"
  by (induction s) (auto simp: replace_char_Nil replace_char_Cons)

lemma length_replace_char_le: "r \<noteq> [] \<Longrightarrow> length s \<le> length (replace_char c r s)"
proof (induction s)
  case Nil
  show ?case by (simp add: replace_char_Nil)
next
  case (Cons x s)
  from Cons.prems have "1 \<le> length r" by (cases r) auto
  with Cons show ?case by (simp add: replace_char_Cons)
qed

lemma length_replace_char_less:
  "c \<in> set s \<Longrightarrow> 1 < length r \<Longrightarrow> length s < length (replace_char c r s)"
proof (induction s)
  case Nil
  then show ?case by simp
next
  case (Cons x s)
  from Cons.prems(2) have ne: "r \<noteq> []" by auto
  show ?case
  proof (cases "x = c")
    case True
    with Cons.prems(2) length_replace_char_le[OF ne, of s c] show ?thesis
      by (simp add: replace_char_Cons)
  next
    case False
    with Cons show ?thesis by (simp add: replace_char_Cons)
  qed
qed

lemma length_replace_char_single: "length (replace_char c [d] s) = length s"
  by (induction s) (auto simp: replace_char_Nil replace_char_Cons)

lemma in_replace_char_other: "x \<in> set s \<Longrightarrow> x \<noteq> c \<Longrightarrow> x \<in> set (replace_char c r s)"
  by (induction s) (auto simp: replace_char_Nil replace_char_Cons)

lemma escape_str_plain: "\<not> has_escaped_char s \<Longrightarrow> escape_str s = s"
  by (simp add: has_escaped_char_def has_markup_char_def escape_str_def replace_char_absent)

lemma escape_str_longer:
  assumes "has_markup_char s"
  shows "length s < length (escape_str s)"
proof -
  define s1 where "s1 = replace_char (CHR ''&'') ''&amp;'' s"
  define s2 where "s2 = replace_char (CHR ''<'') ''&lt;'' s1"
  define s3 where "s3 = replace_char (CHR ''>'') ''&gt;'' s2"
  define s4 where "s4 = replace_char (CHR 0x22) ''&quot;'' s3"
  have e: "escape_str s = replace_char (CHR 0x27) ''&#x27;'' s4"
    by (simp add: escape_str_def s1_def s2_def s3_def s4_def)
  have l1: "length s \<le> length s1" unfolding s1_def by (rule length_replace_char_le) simp
  have l2: "length s1 \<le> length s2" unfolding s2_def by (rule length_replace_char_le) simp
  have l3: "length s2 \<le> length s3" unfolding s3_def by (rule length_replace_char_le) simp
  have l4: "length s3 \<le> length s4" unfolding s4_def by (rule length_replace_char_le) simp
  have l5: "length s4 \<le> length (escape_str s)"
    unfolding e by (rule length_replace_char_le) simp
  from assms consider "CHR ''&'' \<in> set s" | "CHR ''<'' \<in> set s" | "CHR ''>'' \<in> set s"
    by (auto simp: has_markup_char_def)
  then have "length s < length s3"
  proof cases
    case 1
    then have "length s < length s1"
      unfolding s1_def by (rule length_replace_char_less) simp
    with l2 l3 show ?thesis by simp
  next
    case 2
    then have "CHR ''<'' \<in> set s1"
      unfolding s1_def by (rule in_replace_char_other) simp
    then have "length s1 < length s2"
      unfolding s2_def by (rule length_replace_char_less) simp
    with l1 l3 show ?thesis by simp
  next
    case 3
    then have "CHR ''>'' \<in> set s1"
      unfolding s1_def by (rule in_replace_char_other) simp
    then have "CHR ''>'' \<in> set s2"
      unfolding s2_def by (rule in_replace_char_other) simp
    then have "length s2 < length s3"
      unfolding s3_def by (rule length_replace_char_less) simp
    with l1 l2 show ?thesis by simp
  qed
  with l4 l5 show ?thesis by simp
qed

lemma escape_str_changes: "has_markup_char s \<Longrightarrow> escape_str s \<noteq> s"
  using escape_str_longer[of s] by auto

lemma length_spec_identity:
  "length (spec_identity t r) = length t + 1 + length (show_int r)"
  by (simp add: spec_identity_def lower_def length_replace_char_single)

lemma spec_identity_escaped_differs:
  "has_markup_char t \<Longrightarrow> spec_identity (escape_str t) r \<noteq> spec_identity t r"
proof
  assume m: "has_markup_char t" and eq: "spec_identity (escape_str t) r = spec_identity t r"
  from eq have "length (spec_identity (escape_str t) r) = length (spec_identity t r)" by simp
  then have "length (escape_str t) = length t" by (simp add: length_spec_identity)
  with escape_str_longer[OF m] show False by simp
qed

lemma repo_name_spec_identity: "repo_name f = spec_identity (task f) (round_no f)"
  by (simp add: repo_name_def spec_identity_def)

subsection \<open>The extracted fields\<close>

lemma extract_fields_Inr:
  assumes "extract_fields env data = Inr f"
  shows "\<exists>e t. dict_get_default data ''email'' (JString ''student@example.com'') = JString e \<and>
               dict_get_default data ''task'' (JString (''task-'' @ take 6 (uuid4_hex env))) =
                 JString t \<and>
               py_int (dict_get_default data ''round'' (JInt 1)) = Inr (round_no f) \<and>
               email f = escape_str e \<and> task f = escape_str t \<and>
               nonce f = dict_get data ''nonce'' \<and>
               brief f = dict_get_default data ''brief'' (JString '''') \<and>
               evaluation_url f = dict_get_default data ''evaluation_url'' (JString '''')"
  using assms
  by (auto simp: extract_fields_def split: sum.splits dest!: html_escape_Inr)

subsection \<open>The project identity\<close>

lemma makedirs_in_trace:
  assumes "MakeDirs p \<in> set (snd (deploy env f))"
  shows "p = path_join (WORK_DIR env) (repo_name f)"
proof -
  from notify_events[of env "evaluation_url f" "response_payload env f"]
  have "MakeDirs p \<notin> set (fst (notify env (evaluation_url f) (response_payload env f)))"
    by auto
  with deploy_trace_events[OF assms] show ?thesis
    by (auto simp: prepare_events_def write_files_def publish_steps_def git_setup_def
          gh_repo_create_def gh_enable_pages_def git_rev_parse_def repo_path_def)
qed

lemma repo_create_in_trace:
  assumes "Run (''gh'' # ''repo'' # ''create'' # n # rest) cwd \<in> set (snd (deploy env f))"
  shows "n = repo_name f"
proof -
  from notify_events[of env "evaluation_url f" "response_payload env f"]
  have "Run (''gh'' # ''repo'' # ''create'' # n # rest) cwd \<notin>
          set (fst (notify env (evaluation_url f) (response_payload env f)))"
    by auto
  with deploy_trace_events[OF assms] show ?thesis
    by (auto simp: prepare_events_def write_files_def publish_steps_def git_setup_def
          gh_repo_create_def gh_enable_pages_def git_rev_parse_def)
qed

text \<open>Claim C7, as stated, fails when the task holds a character that escaping rewrites: for
  the task \<^verbatim>\<open>R&D Quiz\<close> and round 2 the directory and the remote repository are named
  \<^verbatim>\<open>r&amp;d-quiz-2\<close>, while the formula of the claim applied to the request's task gives
  \<^verbatim>\<open>r&d-quiz-2\<close>.\<close>

theorem project_identity_counterexample:
  "snd (handle_request env_ok (Some (JObject markup_data))) ! 0 =
     MakeDirs ''./workspace/r&amp;d-quiz-2'' \<and>
   snd (handle_request env_ok (Some (JObject markup_data))) ! 12 =
     Run [''gh'', ''repo'', ''create'', ''r&amp;d-quiz-2'', ''--public'', ''--source'',
          ''./workspace/r&amp;d-quiz-2'', ''--push'', ''--confirm''] None \<and>
   dict_get markup_data ''task'' = JString ''R&D Quiz'' \<and>
   dict_get markup_data ''round'' = JInt 2 \<and>
   spec_identity ''R&D Quiz'' 2 = ''r&d-quiz-2''"
  by (simp add: handler_defs env_defs)

text \<open>Claim C7, amended. For every authenticated request whose fields are extracted, the
  project identity is the formula of the specification applied to the HTML-escaped task (the
  request's task, or the generated default) and the integer value of the round (the request's
  round through \<^verbatim>\<open>int\<close>, or 1). It equals the formula applied to the request's own task whenever
  that task holds none of the five characters that escaping rewrites. Every directory the run
  creates is the working directory joined with this identity, and every remote repository it
  creates is named by it.\<close>

theorem project_identity_from_escaped_task:
  assumes "authenticated env data"
    and "extract_fields env data = Inr f"
  shows "\<exists>t. dict_get_default data ''task'' (JString (''task-'' @ take 6 (uuid4_hex env))) =
               JString t \<and>
             py_int (dict_get_default data ''round'' (JInt 1)) = Inr (round_no f) \<and>
             repo_name f = spec_identity (escape_str t) (round_no f) \<and>
             (\<not> has_escaped_char t \<longrightarrow> repo_name f = spec_identity t (round_no f)) \<and>
             (\<forall>p. MakeDirs p \<in> set (snd (handle_request env (Some (JObject data)))) \<longrightarrow>
                    p = path_join (WORK_DIR env) (repo_name f)) \<and>
             (\<forall>n rest cwd.
                 Run (''gh'' # ''repo'' # ''create'' # n # rest) cwd
                   \<in> set (snd (handle_request env (Some (JObject data)))) \<longrightarrow>
                 n = repo_name f)"
proof -
  from extract_fields_Inr[OF assms(2)] obtain t where
    t: "dict_get_default data ''task'' (JString (''task-'' @ take 6 (uuid4_hex env))) = JString t"
    and r: "py_int (dict_get_default data ''round'' (JInt 1)) = Inr (round_no f)"
    and tf: "task f = escape_str t"
    by auto
  have i: "repo_name f = spec_identity (escape_str t) (round_no f)"
    by (simp add: repo_name_spec_identity tf)
  have h: "handle_request env (Some (JObject data)) = deploy env f"
    by (rule handle_authenticated[OF assms])
  from t r i show ?thesis
    by (auto simp: h escape_str_plain dest: makedirs_in_trace repo_create_in_trace)
qed

text \<open>The end-to-end request: the identity is \<^verbatim>\<open>quiz-app-1\<close>.\<close>

theorem project_identity_from_escaped_task_witness:
  "authenticated env_ok quiz_data \<and>
   extract_fields env_ok quiz_data = Inr quiz_fields \<and>
   \<not> has_escaped_char ''Quiz App'' \<and>
   MakeDirs ''./workspace/quiz-app-1'' \<in> set (snd (handle_request env_ok (Some (JObject quiz_data)))) \<and>
   repo_name quiz_fields = spec_identity ''Quiz App'' 1 \<and>
   path_join (WORK_DIR env_ok) (repo_name quiz_fields) = ''./workspace/quiz-app-1''"
proof -
  from project_identity_from_escaped_task[OF quiz_authenticated quiz_extract] obtain t where
    t: "dict_get_default quiz_data ''task'' (JString (''task-'' @ take 6 (uuid4_hex env_ok))) =
          JString t"
    and plain: "\<not> has_escaped_char t \<longrightarrow> repo_name quiz_fields = spec_identity t (round_no quiz_fields)"
    and mk: "\<forall>p. MakeDirs p \<in> set (snd (handle_request env_ok (Some (JObject quiz_data)))) \<longrightarrow>
                  p = path_join (WORK_DIR env_ok) (repo_name quiz_fields)"
    by blast
  from t have t': "t = ''Quiz App''"
    by (simp add: dict_get_default_def quiz_data_def)
  have ne: "\<not> has_escaped_char ''Quiz App''"
    by (simp add: has_escaped_char_def has_markup_char_def)
  have "round_no quiz_fields = 1"
    by (simp add: quiz_fields_def)
  with plain t' ne have i: "repo_name quiz_fields = spec_identity ''Quiz App'' 1"
    by simp
  have ev: "MakeDirs ''./workspace/quiz-app-1'' \<in>
              set (snd (handle_request env_ok (Some (JObject quiz_data))))"
    by (simp add: handler_defs env_defs)
  with mk have "''./workspace/quiz-app-1'' = path_join (WORK_DIR env_ok) (repo_name quiz_fields)"
    by blast
  with quiz_authenticated quiz_extract ne ev i show ?thesis by simp
qed

subsection \<open>The publisher\<close>

lemma length_publish_steps: "length (publish_steps env f) = 9"
  by (simp add: publish_steps_def git_setup_def)

lemma take_all_ok_nth:
  assumes "k < length ss" and "\<forall>s \<in> set (take k ss). P s" and "i < k"
  shows "P (ss ! i)"
proof -
  from assms(1,3) have "take k ss ! i = ss ! i" "i < length (take k ss)" by simp_all
  then have "ss ! i \<in> set (take k ss)" by (metis nth_mem)
  with assms(2) show ?thesis by blast
qed

text \<open>Claim C2, as stated, fails in its step 3: the committer email that is configured is
  not the request's email but its HTML-escaped form (line 78 feeds line 112).\<close>

theorem publisher_email_counterexample:
  "dict_get markup_data ''email'' = JString ''a<b@x.org'' \<and>
   snd (handle_request env_ok (Some (JObject markup_data))) ! 9 =
     Run [''git'', ''config'', ''user.email'', ''a&lt;b@x.org'']
         (Some ''./workspace/r&amp;d-quiz-2'')"
  by (simp add: handler_defs env_defs)

text \<open>Claim C2, amended. For an authenticated request that reaches the publisher (fields
  extracted, directory created, log line written, page generated, the three files written),
  the publisher is the nine commands below, which are the eight steps of the specification
  in their order (step 3 is the two \<^verbatim>\<open>git config\<close> commands), with the HTML-escaped email of
  the request as committer email and the escaped task in the commit message. If command \<open>k\<close>
  is the first to fail, the trace ends with the first \<open>k + 1\<close> commands, the failing one
  last, an exception escapes and no later command, callback or response follows. If none
  fails, all nine run in order, followed by the notification and then by the construction of
  the response.\<close>

theorem publisher_runs_its_steps_in_order:
  assumes "authenticated env data"
    and "extract_fields env data = Inr f"
    and "\<not> fails env (MakeDirs (repo_path env f))"
    and "\<not> fails env (PrintGenerating (task f))"
    and "generate_app_from_brief env (brief f) = Inr code"
    and "\<forall>s \<in> set (write_files env f code). \<not> fails env s"
  shows "\<exists>e t.
     dict_get_default data ''email'' (JString ''student@example.com'') = JString e \<and>
     dict_get_default data ''task'' (JString (''task-'' @ take 6 (uuid4_hex env))) = JString t \<and>
     publish_steps env f =
       [Run [''git'', ''init''] (Some (repo_path env f)),
        Run [''git'', ''branch'', ''-M'', ''main''] (Some (repo_path env f)),
        Run [''git'', ''config'', ''user.name'', ''AutoBot''] (Some (repo_path env f)),
        Run [''git'', ''config'', ''user.email'', escape_str e] (Some (repo_path env f)),
        Run [''git'', ''add'', ''.''] (Some (repo_path env f)),
        Run [''git'', ''commit'', ''-m'', ''Initial commit for '' @ escape_str t]
            (Some (repo_path env f)),
        Run [''gh'', ''repo'', ''create'', repo_name f, ''--public'', ''--source'',
             repo_path env f, ''--push'', ''--confirm''] None,
        Run [''gh'', ''api'',
             ''repos/'' @ GITHUB_USERNAME env @ ''/'' @ repo_name f @ ''/pages'',
             ''-f'', ''source.branch=main'', ''-f'', ''source.path=/''] None,
        CheckOutput [''git'', ''rev-parse'', ''HEAD''] (Some (repo_path env f))]
     \<and> (\<forall>k<9. (\<forall>s \<in> set (take k (publish_steps env f)). \<not> fails env s) \<and>
                fails env (publish_steps env f ! k) \<longrightarrow>
           handle_request env (Some (JObject data)) =
             (Fault (StepFailed (publish_steps env f ! k)),
              prepare_events env f @ write_files env f code @
              take (Suc k) (publish_steps env f)))
     \<and> ((\<forall>s \<in> set (publish_steps env f). \<not> fails env s) \<longrightarrow>
           handle_request env (Some (JObject data)) =
             (case snd (notify env (evaluation_url f) (response_payload env f)) of
                Some x \<Rightarrow> Fault x
              | None \<Rightarrow> JSONResponse (response_payload env f) 200,
              prepare_events env f @ write_files env f code @ publish_steps env f @
              fst (notify env (evaluation_url f) (response_payload env f))))"
proof -
  from extract_fields_Inr[OF assms(2)] obtain e t where
    e: "dict_get_default data ''email'' (JString ''student@example.com'') = JString e"
    and t: "dict_get_default data ''task'' (JString (''task-'' @ take 6 (uuid4_hex env))) =
              JString t"
    and ef: "email f = escape_str e" and tf: "task f = escape_str t"
    by auto
  have steps: "publish_steps env f =
       [Run [''git'', ''init''] (Some (repo_path env f)),
        Run [''git'', ''branch'', ''-M'', ''main''] (Some (repo_path env f)),
        Run [''git'', ''config'', ''user.name'', ''AutoBot''] (Some (repo_path env f)),
        Run [''git'', ''config'', ''user.email'', escape_str e] (Some (repo_path env f)),
        Run [''git'', ''add'', ''.''] (Some (repo_path env f)),
        Run [''git'', ''commit'', ''-m'', ''Initial commit for '' @ escape_str t]
            (Some (repo_path env f)),
        Run [''gh'', ''repo'', ''create'', repo_name f, ''--public'', ''--source'',
             repo_path env f, ''--push'', ''--confirm''] None,
        Run [''gh'', ''api'',
             ''repos/'' @ GITHUB_USERNAME env @ ''/'' @ repo_name f @ ''/pages'',
             ''-f'', ''source.branch=main'', ''-f'', ''source.path=/''] None,
        CheckOutput [''git'', ''rev-parse'', ''HEAD''] (Some (repo_path env f))]"
    by (simp add: publish_steps_def git_setup_def gh_repo_create_def gh_enable_pages_def
          git_rev_parse_def ef tf)
  have h: "handle_request env (Some (JObject data)) = deploy env f"
    by (rule handle_authenticated[OF assms(1,2)])
  have abort: "\<forall>k<9. (\<forall>s \<in> set (take k (publish_steps env f)). \<not> fails env s) \<and>
                fails env (publish_steps env f ! k) \<longrightarrow>
           handle_request env (Some (JObject data)) =
             (Fault (StepFailed (publish_steps env f ! k)),
              prepare_events env f @ write_files env f code @
              take (Suc k) (publish_steps env f))"
  proof (intro allI impI)
    fix k
    assume k: "k < 9"
      and fail: "(\<forall>s \<in> set (take k (publish_steps env f)). \<not> fails env s) \<and>
                 fails env (publish_steps env f ! k)"
    from k have len: "k < length (publish_steps env f)"
      by (simp add: length_publish_steps)
    from fail have ok: "\<forall>i<k. \<not> fails env (publish_steps env f ! i)"
      using take_all_ok_nth[OF len, of "\<lambda>s. \<not> fails env s"] by blast
    from fail have bad: "fails env (publish_steps env f ! k)" by simp
    show "handle_request env (Some (JObject data)) =
            (Fault (StepFailed (publish_steps env f ! k)),
             prepare_events env f @ write_files env f code @
             take (Suc k) (publish_steps env f))"
      unfolding h by (rule deploy_publish_fails[OF assms(3-6) len ok bad])
  qed
  have all: "(\<forall>s \<in> set (publish_steps env f). \<not> fails env s) \<longrightarrow>
           handle_request env (Some (JObject data)) =
             (case snd (notify env (evaluation_url f) (response_payload env f)) of
                Some x \<Rightarrow> Fault x
              | None \<Rightarrow> JSONResponse (response_payload env f) 200,
              prepare_events env f @ write_files env f code @ publish_steps env f @
              fst (notify env (evaluation_url f) (response_payload env f)))"
  proof
    assume "\<forall>s \<in> set (publish_steps env f). \<not> fails env s"
    with assms(6) have "\<forall>s \<in> set (write_files env f code @ publish_steps env f). \<not> fails env s"
      by auto
    from deploy_success[OF assms(3-5) this] show "handle_request env (Some (JObject data)) =
             (case snd (notify env (evaluation_url f) (response_payload env f)) of
                Some x \<Rightarrow> Fault x
              | None \<Rightarrow> JSONResponse (response_payload env f) 200,
              prepare_events env f @ write_files env f code @ publish_steps env f @
              fst (notify env (evaluation_url f) (response_payload env f)))"
      unfolding h .
  qed
  from e t steps abort all show ?thesis by blast
qed

text \<open>The request with the email \<^verbatim>\<open>a<b@x.org\<close>, when the remote repository exists already:
  the committer email configured is \<^verbatim>\<open>a&lt;b@x.org\<close>, \<^verbatim>\<open>gh repo create\<close>, the seventh command,
  fails, and neither the hosting call nor \<^verbatim>\<open>git rev-parse\<close> runs.\<close>

theorem publisher_runs_its_steps_in_order_witness:
  "authenticated env_repo_exists markup_data \<and>
   extract_fields env_repo_exists markup_data = Inr markup_fields \<and>
   \<not> fails env_repo_exists (MakeDirs (repo_path env_repo_exists markup_fields)) \<and>
   \<not> fails env_repo_exists (PrintGenerating (task markup_fields)) \<and>
   generate_app_from_brief env_repo_exists (brief markup_fields) = Inr ''<html>..</html>'' \<and>
   dict_get_default markup_data ''email'' (JString ''student@example.com'') =
     JString ''a<b@x.org'' \<and>
   publish_steps env_repo_exists markup_fields ! 3 =
     Run [''git'', ''config'', ''user.email'', escape_str ''a<b@x.org'']
         (Some ''./workspace/r&amp;d-quiz-2'') \<and>
   escape_str ''a<b@x.org'' = ''a&lt;b@x.org'' \<and>
   fails env_repo_exists (publish_steps env_repo_exists markup_fields ! 6) \<and>
   handle_request env_repo_exists (Some (JObject markup_data)) =
     (Fault (StepFailed
        (Run [''gh'', ''repo'', ''create'', ''r&amp;d-quiz-2'', ''--public'', ''--source'',
              ''./workspace/r&amp;d-quiz-2'', ''--push'', ''--confirm''] None)),
      take 13 markup_events)"
proof -
  have a: "authenticated env_repo_exists markup_data"
    by (simp add: authenticated_def dict_get_def env_defs)
  have x: "extract_fields env_repo_exists markup_data = Inr markup_fields"
    by (simp add: handler_defs env_defs)
  have m: "\<not> fails env_repo_exists (MakeDirs (repo_path env_repo_exists markup_fields))"
    by (simp add: env_defs)
  have l: "\<not> fails env_repo_exists (PrintGenerating (task markup_fields))"
    by (simp add: env_defs)
  have g: "generate_app_from_brief env_repo_exists (brief markup_fields) = Inr ''<html>..</html>''"
    by (simp add: generate_app_from_brief_def strip_def is_space_def env_defs)
  have w: "\<forall>s \<in> set (write_files env_repo_exists markup_fields ''<html>..</html>'').
             \<not> fails env_repo_exists s"
    by (simp add: write_files_def env_defs)
  have rp: "repo_path env_repo_exists markup_fields = ''./workspace/r&amp;d-quiz-2''"
    by (simp add: handler_defs env_defs)
  have ps: "publish_steps env_repo_exists markup_fields = drop 6 markup_events"
    by (simp add: handler_defs env_defs markup_events_def)
  have ok: "\<forall>s \<in> set (take 6 (publish_steps env_repo_exists markup_fields)).
              \<not> fails env_repo_exists s"
    unfolding ps by (simp add: markup_events_def env_defs)
  have bad: "fails env_repo_exists (publish_steps env_repo_exists markup_fields ! 6)"
    unfolding ps by (simp add: markup_events_def env_defs)
  have pre: "prepare_events env_repo_exists markup_fields @
             write_files env_repo_exists markup_fields ''<html>..</html>'' = take 6 markup_events"
    by (simp add: handler_defs env_defs markup_events_def)
  have v: "escape_str ''a<b@x.org'' = ''a&lt;b@x.org''"
    by (simp add: escape_str_def replace_char_def)
  from publisher_runs_its_steps_in_order[OF a x m l g w] obtain e where
    e: "dict_get_default markup_data ''email'' (JString ''student@example.com'') = JString e"
    and s3: "publish_steps env_repo_exists markup_fields ! 3 =
       Run [''git'', ''config'', ''user.email'', escape_str e]
           (Some (repo_path env_repo_exists markup_fields))"
    and abort: "\<forall>k<9. (\<forall>s \<in> set (take k (publish_steps env_repo_exists markup_fields)).
                   \<not> fails env_repo_exists s) \<and>
                fails env_repo_exists (publish_steps env_repo_exists markup_fields ! k) \<longrightarrow>
           handle_request env_repo_exists (Some (JObject markup_data)) =
             (Fault (StepFailed (publish_steps env_repo_exists markup_fields ! k)),
              prepare_events env_repo_exists markup_fields @
              write_files env_repo_exists markup_fields ''<html>..</html>'' @
              take (Suc k) (publish_steps env_repo_exists markup_fields))"
    by (metis nth_Cons_0 nth_Cons_Suc numeral_3_eq_3)
  from e have e': "e = ''a<b@x.org''"
    by (simp add: dict_get_default_def markup_data_def)
  from abort[rule_format, of 6] ok bad
  have "handle_request env_repo_exists (Some (JObject markup_data)) =
          (Fault (StepFailed (publish_steps env_repo_exists markup_fields ! 6)),
           (prepare_events env_repo_exists markup_fields @
            write_files env_repo_exists markup_fields ''<html>..</html>'') @
           take (Suc 6) (publish_steps env_repo_exists markup_fields))"
    by simp
  then have r: "handle_request env_repo_exists (Some (JObject markup_data)) =
     (Fault (StepFailed
        (Run [''gh'', ''repo'', ''create'', ''r&amp;d-quiz-2'', ''--public'', ''--source'',
              ''./workspace/r&amp;d-quiz-2'', ''--push'', ''--confirm''] None)),
      take 13 markup_events)"
    unfolding pre ps by (simp add: markup_events_def)
  from a x m l g e s3 v bad r show ?thesis
    unfolding e' rp by simp
qed

subsection \<open>The response payload\<close>




subsection \<open>Escaping before use\<close>

lemma extract_fields_typed:
  assumes "dict_get_default data ''email'' (JString ''student@example.com'') = JString e"
    and "dict_get_default data ''task'' (JString (''task-'' @ take 6 (uuid4_hex env))) = JString t"
    and "py_int (dict_get_default data ''round'' (JInt 1)) = Inr r"
  shows "extract_fields env data =
     Inr \<lparr> email = escape_str e, task = escape_str t, round_no = r,
           nonce = dict_get data ''nonce'',
           brief = dict_get_default data ''brief'' (JString ''''),
           evaluation_url = dict_get_default data ''evaluation_url'' (JString ''''),
           attachments = dict_get_default data ''attachments'' (JArray []) \<rparr>"
  using assms by (simp add: extract_fields_def)

lemmas step_defs =
  prepare_events_def write_files_def publish_steps_def git_setup_def gh_repo_create_def
  gh_enable_pages_def git_rev_parse_def repo_path_def repo_name_def spec_identity_def
  readme_text_def response_payload_def repo_url_def pages_url_def commit_sha_def

text \<open>Claim C9. For every authenticated request whose email and task are strings (or absent)
  and whose round converts to an integer, the handler uses the email and the task only in
  their HTML-escaped forms. Every run is a prefix of the fifteen actions below, followed by
  the notification when all fifteen succeed: the directory and the repository are named by
  the identity of the escaped task, the readme holds the escaped task and the escaped email,
  \<^verbatim>\<open>git config user.email\<close> is given the escaped email and the commit message the escaped
  task. Every POST of the run carries the payload with the escaped email and task, and a
  response 200 of the run has that payload as its body. When the generator returns a page
  and no action of the run fails, the run is exactly these fifteen actions and the
  notification, and the response is built from that payload. Whenever the email or the task
  holds one of \<^verbatim>\<open>&\<close>, \<^verbatim>\<open><\<close>, \<^verbatim>\<open>>\<close>, the escaped form differs from the request's string, and so
  does the identity from the one the request's own task would give.\<close>

theorem email_and_task_escaped_before_use:
  assumes "authenticated env data"
    and "dict_get_default data ''email'' (JString ''student@example.com'') = JString e"
    and "dict_get_default data ''task'' (JString (''task-'' @ take 6 (uuid4_hex env))) = JString t"
    and "py_int (dict_get_default data ''round'' (JInt 1)) = Inr r"
  shows
    "let ident = spec_identity (escape_str t) r;
         dir = path_join (WORK_DIR env) ident;
         brief_v = dict_get_default data ''brief'' (JString '''');
         url = dict_get_default data ''evaluation_url'' (JString '''');
         payload =
           JObject [(''email'', JString (escape_str e)),
                    (''task'', JString (escape_str t)),
                    (''round'', JInt r),
                    (''nonce'', dict_get data ''nonce''),
                    (''repo_url'',
                       JString (''https://github.com/'' @ GITHUB_USERNAME env @ ''/'' @ ident)),
                    (''commit_sha'',
                       JString (strip (stdout_of env
                         (CheckOutput [''git'', ''rev-parse'', ''HEAD''] (Some dir))))),
                    (''pages_url'',
                       JString (''https://'' @ GITHUB_USERNAME env @ ''.github.io/'' @ ident @
                                ''/''))];
         steps = (\<lambda>code.
           [MakeDirs dir,
            PrintGenerating (escape_str t),
            Generate brief_v,
            WriteFile (path_join dir ''index.html'') code,
            WriteFile (path_join dir ''README.md'')
              (''# '' @ escape_str t @ ''\<newline>\<newline>'' @ fmt env brief_v @
               ''\<newline>\<newline>Auto-generated for '' @ escape_str e @
               '' (Round '' @ show_int r @ '').''),
            WriteFile (path_join dir ''LICENSE'') license_text,
            Run [''git'', ''init''] (Some dir),
            Run [''git'', ''branch'', ''-M'', ''main''] (Some dir),
            Run [''git'', ''config'', ''user.name'', ''AutoBot''] (Some dir),
            Run [''git'', ''config'', ''user.email'', escape_str e] (Some dir),
            Run [''git'', ''add'', ''.''] (Some dir),
            Run [''git'', ''commit'', ''-m'', ''Initial commit for '' @ escape_str t] (Some dir),
            Run [''gh'', ''repo'', ''create'', ident, ''--public'', ''--source'', dir,
                 ''--push'', ''--confirm''] None,
            Run [''gh'', ''api'', ''repos/'' @ GITHUB_USERNAME env @ ''/'' @ ident @ ''/pages'',
                 ''-f'', ''source.branch=main'', ''-f'', ''source.path=/''] None,
            CheckOutput [''git'', ''rev-parse'', ''HEAD''] (Some dir)]);
         run = handle_request env (Some (JObject data))
     in (has_markup_char e \<longrightarrow> escape_str e \<noteq> e) \<and>
        (has_markup_char t \<longrightarrow> escape_str t \<noteq> t \<and> ident \<noteq> spec_identity t r) \<and>
        (\<exists>code n. filter (\<lambda>x. \<not> is_notification_event x) (snd run) = take n (steps code)) \<and>
        (\<forall>u p tmo. Post u p tmo \<in> set (snd run) \<longrightarrow> u = url \<and> p = payload) \<and>
        (\<forall>body. fst run = Response 200 body \<longrightarrow> body = payload) \<and>
        (\<forall>code. generate_app_from_brief env brief_v = Inr code \<and>
                 (\<forall>s \<in> set (snd run). \<not> fails env s) \<longrightarrow>
                 fst run = JSONResponse payload 200 \<and>
                 snd run = steps code @ fst (notify env url payload))"
proof -
  define f where "f = \<lparr> email = escape_str e, task = escape_str t, round_no = r,
           nonce = dict_get data ''nonce'',
           brief = dict_get_default data ''brief'' (JString ''''),
           evaluation_url = dict_get_default data ''evaluation_url'' (JString ''''),
           attachments = dict_get_default data ''attachments'' (JArray []) \<rparr>"
  have x: "extract_fields env data = Inr f"
    unfolding f_def by (rule extract_fields_typed[OF assms(2-4)])
  have h: "handle_request env (Some (JObject data)) = deploy env f"
    by (rule handle_authenticated[OF assms(1) x])
  have fs: "email f = escape_str e" "task f = escape_str t" "round_no f = r"
    "nonce f = dict_get data ''nonce''"
    "brief f = dict_get_default data ''brief'' (JString '''')"
    "evaluation_url f = dict_get_default data ''evaluation_url'' (JString '''')"
    by (simp_all add: f_def)
  have c1: "has_markup_char e \<longrightarrow> escape_str e \<noteq> e"
    by (simp add: escape_str_changes)
  have c2: "has_markup_char t \<longrightarrow>
      escape_str t \<noteq> t \<and> spec_identity (escape_str t) r \<noteq> spec_identity t r"
    by (simp add: escape_str_changes spec_identity_escaped_differs)
  have c3: "\<exists>code n. filter (\<lambda>x. \<not> is_notification_event x) (snd (deploy env f)) =
      take n (prepare_events env f @ write_files env f code @ publish_steps env f)"
    by (rule deploy_prefix)
  have c4: "\<forall>u p tmo. Post u p tmo \<in> set (snd (deploy env f)) \<longrightarrow>
      u = evaluation_url f \<and> p = response_payload env f"
    using deploy_posts[of _ _ _ env f] by blast
  have c5: "\<forall>body. fst (deploy env f) = Response 200 body \<longrightarrow> body = response_payload env f"
    using deploy_response_200[of env f] by blast
  have c6: "\<forall>code. generate_app_from_brief env (brief f) = Inr code \<and>
                 (\<forall>s \<in> set (snd (deploy env f)). \<not> fails env s) \<longrightarrow>
                 fst (deploy env f) = JSONResponse (response_payload env f) 200 \<and>
                 snd (deploy env f) =
                   (prepare_events env f @ write_files env f code @ publish_steps env f) @
                   fst (notify env (evaluation_url f) (response_payload env f))"
    using deploy_no_failure[of env f] by auto
  from c1 c2 c3 c4 c5 c6 show ?thesis
    unfolding Let_def h by (simp only: step_defs fs append_Cons append_Nil)
qed

lemmas value_defs =
  dict_get_def dict_get_default_def spec_identity_def lower_def lower_char_def
  replace_char_def escape_str_def show_int_def show_nat.simps digit_char_def path_join_def
  fmt_def license_text_def strip_def is_space_def notify_def JSONResponse_def

text \<open>An email with \<^verbatim>\<open><\<close> and a task with \<^verbatim>\<open>&\<close>: the whole run and the response of the
  handler, with the escaped forms in the directory, the readme, the committer email, the
  commit message, the repository name and the payload.\<close>

theorem email_and_task_escaped_before_use_witness:
  "authenticated env_ok markup_data \<and>
   dict_get_default markup_data ''email'' (JString ''student@example.com'') =
     JString ''a<b@x.org'' \<and>
   dict_get_default markup_data ''task'' (JString (''task-'' @ take 6 (uuid4_hex env_ok))) =
     JString ''R&D Quiz'' \<and>
   py_int (dict_get_default markup_data ''round'' (JInt 1)) = Inr 2 \<and>
   has_markup_char ''a<b@x.org'' \<and> has_markup_char ''R&D Quiz'' \<and>
   escape_str ''a<b@x.org'' \<noteq> ''a<b@x.org'' \<and>
   escape_str ''R&D Quiz'' \<noteq> ''R&D Quiz'' \<and>
   generate_app_from_brief env_ok (dict_get_default markup_data ''brief'' (JString '''')) =
     Inr ''<html>..</html>'' \<and>
   handle_request env_ok (Some (JObject markup_data)) =
     (Response 200 markup_payload, markup_events)"
proof -
  have e: "dict_get_default markup_data ''email'' (JString ''student@example.com'') =
             JString ''a<b@x.org''"
    by (simp add: dict_get_default_def markup_data_def)
  have t: "dict_get_default markup_data ''task''
             (JString (''task-'' @ take 6 (uuid4_hex env_ok))) = JString ''R&D Quiz''"
    by (simp add: dict_get_default_def markup_data_def)
  have r: "py_int (dict_get_default markup_data ''round'' (JInt 1)) = Inr 2"
    by (simp add: dict_get_default_def markup_data_def)
  have m: "has_markup_char ''a<b@x.org''" "has_markup_char ''R&D Quiz''"
    by (simp_all add: has_markup_char_def)
  have g: "generate_app_from_brief env_ok (dict_get_default markup_data ''brief'' (JString ''''))
             = Inr ''<html>..</html>''"
    by (simp add: generate_app_from_brief_def strip_def is_space_def env_ok_def)
  have nf: "\<forall>s \<in> set (snd (handle_request env_ok (Some (JObject markup_data)))).
              \<not> fails env_ok s"
    by (simp add: env_ok_def)
  note th = email_and_task_escaped_before_use[OF markup_authenticated e t r, unfolded Let_def]
  from th m have d: "escape_str ''a<b@x.org'' \<noteq> ''a<b@x.org''"
    "escape_str ''R&D Quiz'' \<noteq> ''R&D Quiz''"
    by blast+
  from th[THEN conjunct2, THEN conjunct2, THEN conjunct2, THEN conjunct2, THEN conjunct2,
          rule_format, of "''<html>..</html>''"] g nf
  have run: "fst (handle_request env_ok (Some (JObject markup_data))) =
               Response 200 markup_payload \<and>
             snd (handle_request env_ok (Some (JObject markup_data))) = markup_events"
    by (simp add: value_defs markup_data_def env_ok_def markup_events_def markup_payload_def)
  then have "handle_request env_ok (Some (JObject markup_data)) =
               (Response 200 markup_payload, markup_events)"
    by (simp add: prod_eq_iff)
  with markup_authenticated e t r m d g show ?thesis by simp
qed

end
